theory Spec2Isabelle
  imports Complex_Main "HOL-Library.Stream"
begin

section \<open>The entities of simulacion\_boxes.py\<close>

text \<open>
  The Python exceptions the engine can raise: \<open>ValueError\<close> (the constructor's
  validation, \<open>deque.remove\<close> of an absent element), \<open>TypeError\<close> (comparing an int
  with \<open>None\<close>) and \<open>AttributeError\<close> (setting a field of \<open>None\<close>).
\<close>

datatype error = ValueError | TypeError | AttributeError

text \<open>
  \<open>Cliente\<close> objects are shared: the same object is held by \<open>clientes_ingresados\<close>, by
  the queue, by a box and by the terminal records, and is mutated through any of them.
  The model keeps the objects in a store (\<open>memoria\<close>, in creation order) and the
  collections hold references, which are positions in the store.
\<close>

type_synonym ref = nat

record Cliente =
  cliente_id :: int
  tiempo_ingreso :: int
  tiempo_inicio_atencion :: "int option"
  tiempo_fin_atencion :: "int option"
  box_asignado :: "int option"
  abandono :: bool
  tiempo_abandono :: "int option"
  posicion_x :: real
  posicion_y :: real

definition tiempo_espera :: "Cliente \<Rightarrow> int option" where
  "tiempo_espera c =
     (case tiempo_inicio_atencion c of
        Some a \<Rightarrow> Some (a - tiempo_ingreso c)
      | None \<Rightarrow>
          (if abandono c \<and> tiempo_abandono c \<noteq> None
           then Some (the (tiempo_abandono c) - tiempo_ingreso c)
           else None))"

definition tiempo_atencion :: "Cliente \<Rightarrow> int option" where
  "tiempo_atencion c =
     (if tiempo_inicio_atencion c \<noteq> None \<and> tiempo_fin_atencion c \<noteq> None
      then Some (the (tiempo_fin_atencion c) - the (tiempo_inicio_atencion c))
      else None)"

record Box =
  box_id :: int
  ocupado :: bool
  cliente_actual :: "ref option"
  box_tiempo_fin_atencion :: "int option"
  box_posicion_x :: real
  box_posicion_y :: real

text \<open>
  The statistics dictionary has a fixed set of keys, so it is a record. The two minima
  start at \<open>float('inf')\<close> and hold an int after the first update.
\<close>

datatype numero = Infinito | Entero int

record Estadisticas =
  est_clientes_ingresados :: int
  est_clientes_atendidos :: int
  est_clientes_abandonaron :: int
  tiempo_min_atencion :: numero
  tiempo_max_atencion :: int
  tiempo_min_espera :: numero
  tiempo_max_espera :: int
  costo_total :: int

text \<open>Python's \<open>min(a, b)\<close> returns \<open>b\<close> when \<open>b < a\<close> and \<open>a\<close> otherwise.\<close>

fun py_min :: "numero \<Rightarrow> int \<Rightarrow> numero" where
  "py_min Infinito b = Entero b"
| "py_min (Entero a) b = Entero (if b < a then b else a)"

text \<open>
  The simulator. The matplotlib handles (\<open>fig\<close>, \<open>ax\<close>, the rectangle lists, the saved
  frames) belong to the presentation and are left out; every field the engine reads or
  writes is here.
\<close>

record Simulador =
  num_boxes :: int
  velocidad_animacion :: real
  boxes :: "Box list"
  cola :: "ref list"
  clientes_ingresados :: "ref list"
  clientes_atendidos :: "ref list"
  clientes_abandonaron :: "ref list"
  DURACION_SIMULACION :: int
  PROB_INGRESO :: real
  TIEMPO_MAX_ESPERA :: int
  MEDIA_ATENCION :: int
  DESVIO_ATENCION :: int
  COSTO_BOX :: int
  PERDIDA_CLIENTE :: int
  tiempo_actual :: int
  contador_clientes :: int
  simulacion_activa :: bool
  estadisticas :: Estadisticas
  memoria :: "Cliente list"

text \<open>
  The two global random generators, as the streams of the values their next calls
  return: \<open>random.random()\<close> and \<open>np.random.normal(MEDIA_ATENCION, DESVIO_ATENCION)\<close>.
  A draw is a finite float, read here as the real number it denotes.
\<close>

record Azar =
  random_random :: "real stream"
  np_random_normal :: "real stream"

section \<open>Construction\<close>

definition nuevo_box :: "int \<Rightarrow> Box" where
  "nuevo_box i =
     \<lparr>box_id = i, ocupado = False, cliente_actual = None, box_tiempo_fin_atencion = None,
      box_posicion_x = 0, box_posicion_y = 0\<rparr>"

definition nuevo_cliente :: "int \<Rightarrow> int \<Rightarrow> Cliente" where
  "nuevo_cliente i t =
     \<lparr>cliente_id = i, tiempo_ingreso = t, tiempo_inicio_atencion = None,
      tiempo_fin_atencion = None, box_asignado = None, abandono = False,
      tiempo_abandono = None, posicion_x = 0, posicion_y = 0\<rparr>"

definition estadisticas_iniciales :: Estadisticas where
  "estadisticas_iniciales =
     \<lparr>est_clientes_ingresados = 0, est_clientes_atendidos = 0,
      est_clientes_abandonaron = 0, tiempo_min_atencion = Infinito,
      tiempo_max_atencion = 0, tiempo_min_espera = Infinito, tiempo_max_espera = 0,
      costo_total = 0\<rparr>"

text \<open>
  \<open>PROB_INGRESO = 1/144\<close> is evaluated in double precision; the value below is that
  double, exactly.
\<close>

definition SimuladorAtencionPublico :: "int \<Rightarrow> real \<Rightarrow> error + Simulador" where
  "SimuladorAtencionPublico n velocidad =
     (if \<not> (1 \<le> n \<and> n \<le> 10) then Inl ValueError
      else Inr
        \<lparr>num_boxes = n,
         velocidad_animacion = velocidad,
         boxes = map (\<lambda>i. nuevo_box (int i)) [0..<nat n],
         cola = [],
         clientes_ingresados = [],
         clientes_atendidos = [],
         clientes_abandonaron = [],
         DURACION_SIMULACION = 4 * 3600,
         PROB_INGRESO = 2001599834386887 / 288230376151711744,
         TIEMPO_MAX_ESPERA = 30 * 60,
         MEDIA_ATENCION = 10 * 60,
         DESVIO_ATENCION = 5 * 60,
         COSTO_BOX = 1000,
         PERDIDA_CLIENTE = 10000,
         tiempo_actual = 0,
         contador_clientes = 0,
         simulacion_activa = False,
         estadisticas = estadisticas_iniciales,
         memoria = []\<rparr>)"

section \<open>The phases of a tick\<close>

text \<open>\<open>int(x)\<close> of a float truncates towards zero.\<close>

definition py_int :: "real \<Rightarrow> int" where
  "py_int x = (if 0 \<le> x then \<lfloor>x\<rfloor> else \<lceil>x\<rceil>)"

definition generar_tiempo_atencion :: "Azar \<Rightarrow> int \<times> Azar" where
  "generar_tiempo_atencion az =
     (let tiempo = shd (np_random_normal az)
      in (max 60 (py_int tiempo), az\<lparr>np_random_normal := stl (np_random_normal az)\<rparr>))"

definition procesar_llegadas :: "Azar \<Rightarrow> Simulador \<Rightarrow> Azar \<times> Simulador" where
  "procesar_llegadas az s =
     (if tiempo_actual s < DURACION_SIMULACION s then
        (let u = shd (random_random az);
             az' = az\<lparr>random_random := stl (random_random az)\<rparr>
         in if u < PROB_INGRESO s then
              (let cliente = nuevo_cliente (contador_clientes s) (tiempo_actual s);
                   r = length (memoria s)
               in (az',
                   s\<lparr>memoria := memoria s @ [cliente],
                     contador_clientes := contador_clientes s + 1,
                     clientes_ingresados := clientes_ingresados s @ [r],
                     cola := cola s @ [r],
                     estadisticas := (estadisticas s)
                       \<lparr>est_clientes_ingresados :=
                          est_clientes_ingresados (estadisticas s) + 1\<rparr>\<rparr>))
            else (az', s))
      else (az, s))"

text \<open>The body of the loop over the boxes, for the box at position \<open>i\<close>.\<close>

definition asignar_box :: "nat \<Rightarrow> Azar \<times> Simulador \<Rightarrow> Azar \<times> Simulador" where
  "asignar_box i = (\<lambda>(az, s).
     (let box = boxes s ! i
      in if \<not> ocupado box \<and> cola s \<noteq> [] then
           (let cliente = hd (cola s);
                (duracion, az') = generar_tiempo_atencion az;
                box' = box\<lparr>ocupado := True,
                           cliente_actual := Some cliente,
                           box_tiempo_fin_atencion := Some (tiempo_actual s + duracion)\<rparr>;
                c' = (memoria s ! cliente)
                       \<lparr>tiempo_inicio_atencion := Some (tiempo_actual s),
                        box_asignado := Some (box_id box)\<rparr>
            in (az',
                s\<lparr>cola := tl (cola s),
                  boxes := (boxes s)[i := box'],
                  memoria := (memoria s)[cliente := c']\<rparr>))
         else (az, s)))"

definition asignar_clientes_a_boxes :: "Azar \<Rightarrow> Simulador \<Rightarrow> Azar \<times> Simulador" where
  "asignar_clientes_a_boxes az s = fold asignar_box [0..<length (boxes s)] (az, s)"

text \<open>A \<open>for\<close> loop whose body can raise: the first exception ends the loop.\<close>

primrec bucle_for :: "('a \<Rightarrow> 's \<Rightarrow> error + 's) \<Rightarrow> 'a list \<Rightarrow> 's \<Rightarrow> error + 's" where
  "bucle_for f [] s = Inr s"
| "bucle_for f (x # xs) s =
     (case f x s of Inl e \<Rightarrow> Inl e | Inr s' \<Rightarrow> bucle_for f xs s')"

definition actualizar_estadisticas :: "Cliente \<Rightarrow> Estadisticas \<Rightarrow> Estadisticas" where
  "actualizar_estadisticas c e =
     (let e1 = e\<lparr>est_clientes_atendidos := est_clientes_atendidos e + 1\<rparr>;
          e2 = (case tiempo_atencion c of
                  Some d \<Rightarrow>
                    (if d \<noteq> 0
                     then e1\<lparr>tiempo_min_atencion := py_min (tiempo_min_atencion e1) d,
                             tiempo_max_atencion := max (tiempo_max_atencion e1) d\<rparr>
                     else e1)
                | None \<Rightarrow> e1)
      in (case tiempo_espera c of
            Some w \<Rightarrow>
              e2\<lparr>tiempo_min_espera := py_min (tiempo_min_espera e2) w,
                 tiempo_max_espera := max (tiempo_max_espera e2) w\<rparr>
          | None \<Rightarrow> e2))"

definition finalizar_box :: "nat \<Rightarrow> Simulador \<Rightarrow> error + Simulador" where
  "finalizar_box i s =
     (let box = boxes s ! i
      in if ocupado box then
           (case box_tiempo_fin_atencion box of
              None \<Rightarrow> Inl TypeError
            | Some f \<Rightarrow>
                if tiempo_actual s \<ge> f then
                  (case cliente_actual box of
                     None \<Rightarrow> Inl AttributeError
                   | Some r \<Rightarrow>
                       (let c' = (memoria s ! r)\<lparr>tiempo_fin_atencion := Some (tiempo_actual s)\<rparr>;
                            box' = box\<lparr>ocupado := False, cliente_actual := None,
                                       box_tiempo_fin_atencion := None\<rparr>
                        in Inr (s\<lparr>memoria := (memoria s)[r := c'],
                                  clientes_atendidos := clientes_atendidos s @ [r],
                                  estadisticas := actualizar_estadisticas c' (estadisticas s),
                                  boxes := (boxes s)[i := box']\<rparr>)))
                else Inr s)
         else Inr s)"

definition procesar_finalizacion_atencion :: "Simulador \<Rightarrow> error + Simulador" where
  "procesar_finalizacion_atencion s = bucle_for finalizar_box [0..<length (boxes s)] s"

text \<open>
  The first loop of \<open>procesar_abandonos\<close>: the state and the list
  \<open>clientes_a_remover\<close> built so far.
\<close>

definition marcar_abandono :: "ref \<Rightarrow> Simulador \<times> ref list \<Rightarrow> Simulador \<times> ref list" where
  "marcar_abandono r = (\<lambda>(s, a_remover).
     (let c = memoria s ! r;
          espera = tiempo_actual s - tiempo_ingreso c
      in if espera \<ge> TIEMPO_MAX_ESPERA s then
           (s\<lparr>memoria := (memoria s)
                  [r := c\<lparr>abandono := True, tiempo_abandono := Some (tiempo_actual s)\<rparr>],
              clientes_abandonaron := clientes_abandonaron s @ [r],
              estadisticas := (estadisticas s)
                \<lparr>est_clientes_abandonaron :=
                   est_clientes_abandonaron (estadisticas s) + 1\<rparr>\<rparr>,
            a_remover @ [r])
         else (s, a_remover)))"

text \<open>
  \<open>deque.remove(x)\<close> deletes the first element that is \<open>x\<close> or equal to it, and the
  equality of a dataclass compares all the fields; with no such element it raises
  \<open>ValueError\<close>.
\<close>

fun deque_remove :: "Cliente list \<Rightarrow> ref list \<Rightarrow> ref \<Rightarrow> error + ref list" where
  "deque_remove mem [] r = Inl ValueError"
| "deque_remove mem (x # xs) r =
     (if x = r \<or> mem ! x = mem ! r then Inr xs
      else (case deque_remove mem xs r of Inl e \<Rightarrow> Inl e | Inr ys \<Rightarrow> Inr (x # ys)))"

definition remover_cliente :: "ref \<Rightarrow> Simulador \<Rightarrow> error + Simulador" where
  "remover_cliente r s =
     (case deque_remove (memoria s) (cola s) r of
        Inl e \<Rightarrow> Inl e
      | Inr q \<Rightarrow> Inr (s\<lparr>cola := q\<rparr>))"

definition procesar_abandonos :: "Simulador \<Rightarrow> error + Simulador" where
  "procesar_abandonos s =
     (let (s1, clientes_a_remover) = fold marcar_abandono (cola s) (s, [])
      in bucle_for remover_cliente clientes_a_remover s1)"

definition calcular_costos :: "Simulador \<Rightarrow> Simulador" where
  "calcular_costos s =
     (let costo_boxes = num_boxes s * COSTO_BOX s;
          costo_perdidas = int (length (clientes_abandonaron s)) * PERDIDA_CLIENTE s
      in s\<lparr>estadisticas := (estadisticas s)\<lparr>costo_total := costo_boxes + costo_perdidas\<rparr>\<rparr>)"

definition simular_paso :: "Azar \<Rightarrow> Simulador \<Rightarrow> error + Azar \<times> Simulador" where
  "simular_paso az s =
     (let (az1, s1) = procesar_llegadas az s;
          (az2, s2) = asignar_clientes_a_boxes az1 s1
      in case procesar_finalizacion_atencion s2 of
           Inl e \<Rightarrow> Inl e
         | Inr s3 \<Rightarrow>
             (case procesar_abandonos s3 of
                Inl e \<Rightarrow> Inl e
              | Inr s4 \<Rightarrow> Inr (az2, s4\<lparr>tiempo_actual := tiempo_actual s4 + 1\<rparr>)))"

definition condicion_finalizacion :: "Simulador \<Rightarrow> bool" where
  "condicion_finalizacion s =
     (let boxes_ocupados = list_ex ocupado (boxes s)
      in tiempo_actual s \<ge> DURACION_SIMULACION s \<and> cola s = [] \<and> \<not> boxes_ocupados)"

section \<open>The fast run\<close>

text \<open>
  The \<open>while\<close> loop of \<open>ejecutar_simulacion_rapida\<close>. \<open>None\<close> is a loop that never ends,
  \<open>Some (Inl e)\<close> a loop ended by the exception \<open>e\<close>.
\<close>

partial_function (option) bucle_simulacion ::
  "Azar \<Rightarrow> Simulador \<Rightarrow> (error + Azar \<times> Simulador) option" where
  "bucle_simulacion az s =
     (if condicion_finalizacion s then Some (Inr (az, s))
      else (case simular_paso az s of
              Inl e \<Rightarrow> Some (Inl e)
            | Inr (az', s') \<Rightarrow> bucle_simulacion az' s'))"

definition ejecutar_simulacion_rapida ::
  "Azar \<Rightarrow> Simulador \<Rightarrow> (error + Azar \<times> Simulador) option" where
  "ejecutar_simulacion_rapida az s =
     (case bucle_simulacion az s of
        None \<Rightarrow> None
      | Some (Inl e) \<Rightarrow> Some (Inl e)
      | Some (Inr (az', s')) \<Rightarrow> Some (Inr (az', calcular_costos s')))"

section \<open>Reachable states\<close>

text \<open>
  \<open>evoluciona s s'\<close>: the engine in state \<open>s\<close> gets to \<open>s'\<close> by some number of calls of
  \<open>simular_paso\<close>, each with any state of the random generators.
\<close>

inductive evoluciona :: "Simulador \<Rightarrow> Simulador \<Rightarrow> bool" where
  evoluciona_refl: "evoluciona s s"
| evoluciona_paso:
    "evoluciona s s' \<Longrightarrow> simular_paso az s' = Inr (az', s'') \<Longrightarrow> evoluciona s s''"

inductive alcanzable :: "Simulador \<Rightarrow> bool" where
  alcanzable_inicial: "SimuladorAtencionPublico n v = Inr s \<Longrightarrow> alcanzable s"
| alcanzable_paso:
    "alcanzable s \<Longrightarrow> simular_paso az s = Inr (az', s') \<Longrightarrow> alcanzable s'"

section \<open>Invariants of the engine\<close>

text \<open>
  The settings are the constants of the constructor, and there are as many boxes as
  \<open>num_boxes\<close> says.
\<close>

definition config_ok :: "Simulador \<Rightarrow> bool" where
  "config_ok s \<longleftrightarrow>
     DURACION_SIMULACION s = 14400 \<and> TIEMPO_MAX_ESPERA s = 1800 \<and>
     PROB_INGRESO s = 2001599834386887 / 288230376151711744 \<and>
     MEDIA_ATENCION s = 600 \<and> DESVIO_ATENCION s = 300 \<and>
     COSTO_BOX s = 1000 \<and> PERDIDA_CLIENTE s = 10000 \<and>
     num_boxes s = int (length (boxes s)) \<and> 1 \<le> num_boxes s \<and> num_boxes s \<le> 10"

text \<open>
  The store: the object at position \<open>r\<close> has id \<open>r\<close>, arrived before the horizon, and
  does not have both a service start and the abandonment flag; the counters agree with
  its size.
\<close>

definition memoria_ok :: "Simulador \<Rightarrow> bool" where
  "memoria_ok s \<longleftrightarrow>
     contador_clientes s = int (length (memoria s)) \<and>
     clientes_ingresados s = [0..<length (memoria s)] \<and>
     est_clientes_ingresados (estadisticas s) = int (length (memoria s)) \<and>
     (\<forall>r<length (memoria s).
        cliente_id (memoria s ! r) = int r \<and>
        tiempo_ingreso (memoria s ! r) < DURACION_SIMULACION s \<and>
        \<not> (tiempo_inicio_atencion (memoria s ! r) \<noteq> None \<and> abandono (memoria s ! r)))"

text \<open>
  The queue holds each waiting customer once; a waiting customer has no service start
  and no abandonment flag, and had not reached the waiting limit at the previous tick.
\<close>

definition cola_ok :: "Simulador \<Rightarrow> bool" where
  "cola_ok s \<longleftrightarrow>
     distinct (cola s) \<and>
     (\<forall>r\<in>set (cola s).
        r < length (memoria s) \<and>
        tiempo_inicio_atencion (memoria s ! r) = None \<and>
        \<not> abandono (memoria s ! r) \<and>
        tiempo_actual s - 1 - tiempo_ingreso (memoria s ! r) < TIEMPO_MAX_ESPERA s)"

text \<open>
  An occupied box holds a customer whose service has started, and its scheduled end is at
  least 60 seconds after that start and not in the past.
\<close>

definition box_ok :: "Simulador \<Rightarrow> Box \<Rightarrow> bool" where
  "box_ok s b \<longleftrightarrow>
     (ocupado b \<longrightarrow>
        (\<exists>r f a. cliente_actual b = Some r \<and> box_tiempo_fin_atencion b = Some f \<and>
           r < length (memoria s) \<and>
           tiempo_inicio_atencion (memoria s ! r) = Some a \<and>
           \<not> abandono (memoria s ! r) \<and> a + 60 \<le> f \<and> tiempo_actual s \<le> f))"

definition boxes_ok :: "Simulador \<Rightarrow> bool" where
  "boxes_ok s \<longleftrightarrow> (\<forall>i<length (boxes s). box_ok s (boxes s ! i))"

text \<open>The served record, the abandoned record, and the count of customers.\<close>

definition atendidos_ok :: "Simulador \<Rightarrow> bool" where
  "atendidos_ok s \<longleftrightarrow>
     est_clientes_atendidos (estadisticas s) = int (length (clientes_atendidos s)) \<and>
     (\<forall>r\<in>set (clientes_atendidos s).
        r < length (memoria s) \<and>
        (\<exists>a b. tiempo_inicio_atencion (memoria s ! r) = Some a \<and>
               tiempo_fin_atencion (memoria s ! r) = Some b \<and> a + 60 \<le> b))"

definition abandonaron_ok :: "Simulador \<Rightarrow> bool" where
  "abandonaron_ok s \<longleftrightarrow>
     est_clientes_abandonaron (estadisticas s) = int (length (clientes_abandonaron s)) \<and>
     (\<forall>r\<in>set (clientes_abandonaron s).
        r < length (memoria s) \<and> abandono (memoria s ! r) \<and>
        (\<exists>ta. tiempo_abandono (memoria s ! r) = Some ta \<and> ta \<le> tiempo_actual s \<and>
              TIEMPO_MAX_ESPERA s \<le> ta - tiempo_ingreso (memoria s ! r)))"

definition conservacion :: "Simulador \<Rightarrow> bool" where
  "conservacion s \<longleftrightarrow>
     length (cola s) + length (filter ocupado (boxes s)) +
     length (clientes_atendidos s) + length (clientes_abandonaron s) =
     length (clientes_ingresados s)"

definition invariante :: "Simulador \<Rightarrow> bool" where
  "invariante s \<longleftrightarrow>
     config_ok s \<and> memoria_ok s \<and> cola_ok s \<and> boxes_ok s \<and> atendidos_ok s \<and>
     abandonaron_ok s \<and> conservacion s"

text \<open>
  What the last two phases of a tick establish, so that the invariant holds again once
  the clock has advanced: the scheduled ends of the occupied boxes are in the future, and
  no queued customer has reached the waiting limit.
\<close>

definition boxes_adelante :: "Simulador \<Rightarrow> bool" where
  "boxes_adelante s \<longleftrightarrow>
     (\<forall>i<length (boxes s). ocupado (boxes s ! i) \<longrightarrow>
        (\<exists>f. box_tiempo_fin_atencion (boxes s ! i) = Some f \<and> tiempo_actual s < f))"

definition cola_adelante :: "Simulador \<Rightarrow> bool" where
  "cola_adelante s \<longleftrightarrow>
     (\<forall>r\<in>set (cola s).
        tiempo_actual s - tiempo_ingreso (memoria s ! r) < TIEMPO_MAX_ESPERA s)"

text \<open>
  The conditions under which the loop bodies act on box \<open>i\<close>, and the test and the effect
  of \<open>procesar_abandonos\<close> on one queued customer.
\<close>

definition asignar_activo :: "nat \<Rightarrow> Simulador \<Rightarrow> bool" where
  "asignar_activo i s \<longleftrightarrow> \<not> ocupado (boxes s ! i) \<and> cola s \<noteq> []"

definition finalizar_activo :: "nat \<Rightarrow> Simulador \<Rightarrow> bool" where
  "finalizar_activo i s \<longleftrightarrow>
     ocupado (boxes s ! i) \<and>
     (\<exists>f. box_tiempo_fin_atencion (boxes s ! i) = Some f \<and> f \<le> tiempo_actual s)"

definition vencido :: "Simulador \<Rightarrow> ref \<Rightarrow> bool" where
  "vencido s r \<longleftrightarrow> TIEMPO_MAX_ESPERA s \<le> tiempo_actual s - tiempo_ingreso (memoria s ! r)"

definition marcado :: "Simulador \<Rightarrow> Cliente \<Rightarrow> Cliente" where
  "marcado s c = c\<lparr>abandono := True, tiempo_abandono := Some (tiempo_actual s)\<rparr>"

text \<open>
  \<open>crece s s'\<close>: the store of \<open>s'\<close> extends that of \<open>s\<close>, and an object that was
  abandoned or had its service started in \<open>s\<close> is still so in \<open>s'\<close>.
\<close>

definition crece :: "Simulador \<Rightarrow> Simulador \<Rightarrow> bool" where
  "crece s s' \<longleftrightarrow>
     length (memoria s) \<le> length (memoria s') \<and>
     (\<forall>r<length (memoria s).
        (abandono (memoria s ! r) \<longrightarrow> abandono (memoria s' ! r)) \<and>
        (tiempo_inicio_atencion (memoria s ! r) \<noteq> None \<longrightarrow>
           tiempo_inicio_atencion (memoria s' ! r) \<noteq> None))"

text \<open>\<open>solo_libera s s'\<close>: from \<open>s\<close> to \<open>s'\<close> boxes were freed and nothing else moved.\<close>

definition solo_libera :: "Simulador \<Rightarrow> Simulador \<Rightarrow> bool" where
  "solo_libera s s' \<longleftrightarrow>
     cola s' = cola s \<and> length (memoria s') = length (memoria s) \<and>
     length (boxes s') = length (boxes s) \<and>
     (\<forall>j. ocupado (boxes s' ! j) \<longrightarrow> boxes s' ! j = boxes s ! j)"

text \<open>Between ticks, every recorded abandonment happened at an earlier tick.\<close>

definition abandonos_pasados :: "Simulador \<Rightarrow> bool" where
  "abandonos_pasados s \<longleftrightarrow>
     (\<forall>r\<in>set (clientes_abandonaron s).
        \<exists>ta. tiempo_abandono (memoria s ! r) = Some ta \<and> ta < tiempo_actual s)"

text \<open>\<open>boxes_hasta F s\<close>: every occupied box of \<open>s\<close> is scheduled to end by tick \<open>F\<close>.\<close>

definition boxes_hasta :: "int \<Rightarrow> Simulador \<Rightarrow> bool" where
  "boxes_hasta F s \<longleftrightarrow>
     (\<forall>j<length (boxes s). ocupado (boxes s ! j) \<longrightarrow>
        (\<exists>f. box_tiempo_fin_atencion (boxes s ! j) = Some f \<and> f \<le> F))"

text \<open>
  Two states of the random generators that lead to the same decisions: the same arrival
  decisions against the probability \<open>p\<close>, and the same service durations.
\<close>

definition mismas_decisiones :: "real \<Rightarrow> Azar \<Rightarrow> Azar \<Rightarrow> bool" where
  "mismas_decisiones p a b \<longleftrightarrow>
     smap (\<lambda>u. u < p) (random_random a) = smap (\<lambda>u. u < p) (random_random b) \<and>
     smap (\<lambda>x. max 60 (py_int x)) (np_random_normal a) =
       smap (\<lambda>x. max 60 (py_int x)) (np_random_normal b)"

section \<open>Example runs\<close>

text \<open>
  \<open>pasos n\<close> is \<open>n\<close> successive calls of \<open>simular_paso\<close>. The states written out below
  are states that the engine reaches in three small runs; that it does is proved with the
  runs, further down.
\<close>

fun pasos :: "nat \<Rightarrow> Azar \<Rightarrow> Simulador \<Rightarrow> error + Azar \<times> Simulador" where
  "pasos 0 az s = Inr (az, s)"
| "pasos (Suc n) az s =
     (case simular_paso az s of Inl e \<Rightarrow> Inl e | Inr (az', s') \<Rightarrow> pasos n az' s')"

text \<open>
  One box; a customer arrives at tick 0 and nobody after; every service lasts the minimum
  of 60 seconds. The states after the first tick and after tick 60, when the customer leaves.
\<close>

definition azar_una_llegada :: Azar where
  "azar_una_llegada = \<lparr>random_random = 0 ## sconst (1 / 2), np_random_normal = sconst 0\<rparr>"

definition simulador_un_box :: Simulador where
  "simulador_un_box = projr (SimuladorAtencionPublico 1 1)"

definition estado_en_atencion :: Simulador where
  "estado_en_atencion =
     \<lparr>num_boxes = 1, velocidad_animacion = 1,
      boxes = [\<lparr>box_id = 0, ocupado = True, cliente_actual = Some 0,
                box_tiempo_fin_atencion = Some 60, box_posicion_x = 0, box_posicion_y = 0\<rparr>],
      cola = [], clientes_ingresados = [0], clientes_atendidos = [],
      clientes_abandonaron = [], DURACION_SIMULACION = 14400,
      PROB_INGRESO = 2001599834386887 / 288230376151711744,
      TIEMPO_MAX_ESPERA = 1800, MEDIA_ATENCION = 600, DESVIO_ATENCION = 300,
      COSTO_BOX = 1000, PERDIDA_CLIENTE = 10000, tiempo_actual = 1,
      contador_clientes = 1, simulacion_activa = False,
      estadisticas =
        \<lparr>est_clientes_ingresados = 1, est_clientes_atendidos = 0,
         est_clientes_abandonaron = 0, tiempo_min_atencion = Infinito,
         tiempo_max_atencion = 0, tiempo_min_espera = Infinito, tiempo_max_espera = 0,
         costo_total = 0\<rparr>,
      memoria =
        [\<lparr>cliente_id = 0, tiempo_ingreso = 0, tiempo_inicio_atencion = Some 0,
          tiempo_fin_atencion = None, box_asignado = Some 0, abandono = False,
          tiempo_abandono = None, posicion_x = 0, posicion_y = 0\<rparr>]\<rparr>"

definition estado_atendido :: Simulador where
  "estado_atendido =
     \<lparr>num_boxes = 1, velocidad_animacion = 1,
      boxes = [\<lparr>box_id = 0, ocupado = False, cliente_actual = None,
                box_tiempo_fin_atencion = None, box_posicion_x = 0, box_posicion_y = 0\<rparr>],
      cola = [], clientes_ingresados = [0], clientes_atendidos = [0],
      clientes_abandonaron = [], DURACION_SIMULACION = 14400,
      PROB_INGRESO = 2001599834386887 / 288230376151711744,
      TIEMPO_MAX_ESPERA = 1800, MEDIA_ATENCION = 600, DESVIO_ATENCION = 300,
      COSTO_BOX = 1000, PERDIDA_CLIENTE = 10000, tiempo_actual = 61,
      contador_clientes = 1, simulacion_activa = False,
      estadisticas =
        \<lparr>est_clientes_ingresados = 1, est_clientes_atendidos = 1,
         est_clientes_abandonaron = 0, tiempo_min_atencion = Entero 60,
         tiempo_max_atencion = 60, tiempo_min_espera = Entero 0, tiempo_max_espera = 0,
         costo_total = 0\<rparr>,
      memoria =
        [\<lparr>cliente_id = 0, tiempo_ingreso = 0, tiempo_inicio_atencion = Some 0,
          tiempo_fin_atencion = Some 60, box_asignado = Some 0, abandono = False,
          tiempo_abandono = None, posicion_x = 0, posicion_y = 0\<rparr>]\<rparr>"

text \<open>
  Nobody arrives: the generators that \<open>azar_una_llegada\<close> leaves after its arrival, and
  the state of the one-box engine at its horizon.
\<close>

definition azar_sin_llegadas :: Azar where
  "azar_sin_llegadas = \<lparr>random_random = sconst (1 / 2), np_random_normal = sconst 0\<rparr>"

definition simulador_al_cierre :: Simulador where
  "simulador_al_cierre = simulador_un_box\<lparr>tiempo_actual := 14400\<rparr>"

text \<open>
  Customers arrive at ticks 0 and 1 and every service lasts 5000 seconds: the second
  customer waits behind the first and gives up at tick 1801, and the first one leaves at
  tick 5000. The states after tick 1, with the second customer waiting, after tick 1801,
  after tick 5000, and at the end of the fast run. \<open>azar_otras_dos_llegadas\<close> has other
  draws that lead to the same decisions.
\<close>

definition azar_dos_llegadas :: Azar where
  "azar_dos_llegadas =
     \<lparr>random_random = 0 ## 0 ## sconst (1 / 2), np_random_normal = sconst 5000\<rparr>"

definition azar_otras_dos_llegadas :: Azar where
  "azar_otras_dos_llegadas =
     \<lparr>random_random = (1 / 1000) ## (1 / 500) ## sconst (9 / 10),
      np_random_normal = sconst (10001 / 2)\<rparr>"

definition azar_servicio_largo :: Azar where
  "azar_servicio_largo = \<lparr>random_random = sconst (1 / 2), np_random_normal = sconst 5000\<rparr>"

definition estado_en_espera :: Simulador where
  "estado_en_espera =
     \<lparr>num_boxes = 1, velocidad_animacion = 1,
      boxes = [\<lparr>box_id = 0, ocupado = True, cliente_actual = Some 0,
                box_tiempo_fin_atencion = Some 5000, box_posicion_x = 0, box_posicion_y = 0\<rparr>],
      cola = [1], clientes_ingresados = [0, 1], clientes_atendidos = [],
      clientes_abandonaron = [], DURACION_SIMULACION = 14400,
      PROB_INGRESO = 2001599834386887 / 288230376151711744,
      TIEMPO_MAX_ESPERA = 1800, MEDIA_ATENCION = 600, DESVIO_ATENCION = 300,
      COSTO_BOX = 1000, PERDIDA_CLIENTE = 10000, tiempo_actual = 2,
      contador_clientes = 2, simulacion_activa = False,
      estadisticas =
        \<lparr>est_clientes_ingresados = 2, est_clientes_atendidos = 0,
         est_clientes_abandonaron = 0, tiempo_min_atencion = Infinito,
         tiempo_max_atencion = 0, tiempo_min_espera = Infinito, tiempo_max_espera = 0,
         costo_total = 0\<rparr>,
      memoria =
        [\<lparr>cliente_id = 0, tiempo_ingreso = 0, tiempo_inicio_atencion = Some 0,
          tiempo_fin_atencion = None, box_asignado = Some 0, abandono = False,
          tiempo_abandono = None, posicion_x = 0, posicion_y = 0\<rparr>,
         \<lparr>cliente_id = 1, tiempo_ingreso = 1, tiempo_inicio_atencion = None,
          tiempo_fin_atencion = None, box_asignado = None, abandono = False,
          tiempo_abandono = None, posicion_x = 0, posicion_y = 0\<rparr>]\<rparr>"

definition estado_abandono :: Simulador where
  "estado_abandono =
     \<lparr>num_boxes = 1, velocidad_animacion = 1,
      boxes = [\<lparr>box_id = 0, ocupado = True, cliente_actual = Some 0,
                box_tiempo_fin_atencion = Some 5000, box_posicion_x = 0, box_posicion_y = 0\<rparr>],
      cola = [], clientes_ingresados = [0, 1], clientes_atendidos = [],
      clientes_abandonaron = [1], DURACION_SIMULACION = 14400,
      PROB_INGRESO = 2001599834386887 / 288230376151711744,
      TIEMPO_MAX_ESPERA = 1800, MEDIA_ATENCION = 600, DESVIO_ATENCION = 300,
      COSTO_BOX = 1000, PERDIDA_CLIENTE = 10000, tiempo_actual = 1802,
      contador_clientes = 2, simulacion_activa = False,
      estadisticas =
        \<lparr>est_clientes_ingresados = 2, est_clientes_atendidos = 0,
         est_clientes_abandonaron = 1, tiempo_min_atencion = Infinito,
         tiempo_max_atencion = 0, tiempo_min_espera = Infinito, tiempo_max_espera = 0,
         costo_total = 0\<rparr>,
      memoria =
        [\<lparr>cliente_id = 0, tiempo_ingreso = 0, tiempo_inicio_atencion = Some 0,
          tiempo_fin_atencion = None, box_asignado = Some 0, abandono = False,
          tiempo_abandono = None, posicion_x = 0, posicion_y = 0\<rparr>,
         \<lparr>cliente_id = 1, tiempo_ingreso = 1, tiempo_inicio_atencion = None,
          tiempo_fin_atencion = None, box_asignado = None, abandono = True,
          tiempo_abandono = Some 1801, posicion_x = 0, posicion_y = 0\<rparr>]\<rparr>"

definition estado_tras_atencion :: Simulador where
  "estado_tras_atencion =
     \<lparr>num_boxes = 1, velocidad_animacion = 1,
      boxes = [\<lparr>box_id = 0, ocupado = False, cliente_actual = None,
                box_tiempo_fin_atencion = None, box_posicion_x = 0, box_posicion_y = 0\<rparr>],
      cola = [], clientes_ingresados = [0, 1], clientes_atendidos = [0],
      clientes_abandonaron = [1], DURACION_SIMULACION = 14400,
      PROB_INGRESO = 2001599834386887 / 288230376151711744,
      TIEMPO_MAX_ESPERA = 1800, MEDIA_ATENCION = 600, DESVIO_ATENCION = 300,
      COSTO_BOX = 1000, PERDIDA_CLIENTE = 10000, tiempo_actual = 5001,
      contador_clientes = 2, simulacion_activa = False,
      estadisticas =
        \<lparr>est_clientes_ingresados = 2, est_clientes_atendidos = 1,
         est_clientes_abandonaron = 1, tiempo_min_atencion = Entero 5000,
         tiempo_max_atencion = 5000, tiempo_min_espera = Entero 0, tiempo_max_espera = 0,
         costo_total = 0\<rparr>,
      memoria =
        [\<lparr>cliente_id = 0, tiempo_ingreso = 0, tiempo_inicio_atencion = Some 0,
          tiempo_fin_atencion = Some 5000, box_asignado = Some 0, abandono = False,
          tiempo_abandono = None, posicion_x = 0, posicion_y = 0\<rparr>,
         \<lparr>cliente_id = 1, tiempo_ingreso = 1, tiempo_inicio_atencion = None,
          tiempo_fin_atencion = None, box_asignado = None, abandono = True,
          tiempo_abandono = Some 1801, posicion_x = 0, posicion_y = 0\<rparr>]\<rparr>"

definition estado_final_dos_llegadas :: Simulador where
  "estado_final_dos_llegadas =
     calcular_costos (estado_tras_atencion\<lparr>tiempo_actual := 14400\<rparr>)"

section \<open>The invariants hold in every reachable state\<close>

subsection \<open>Construction and arrivals\<close>

lemmas inv_defs = config_ok_def memoria_ok_def cola_ok_def boxes_ok_def box_ok_def
  atendidos_ok_def abandonaron_ok_def conservacion_def

lemma invariante_inicial:
  assumes "SimuladorAtencionPublico n v = Inr s"
  shows "invariante s"
proof -
  from assms have n: "1 \<le> n" "n \<le> 10"
    by (auto simp: SimuladorAtencionPublico_def split: if_splits)
  with assms show ?thesis
    by (auto simp: SimuladorAtencionPublico_def invariante_def inv_defs nuevo_box_def
        estadisticas_iniciales_def)
qed

lemma llegadas_config: "config_ok s \<Longrightarrow> config_ok (snd (procesar_llegadas az s))"
  by (simp add: procesar_llegadas_def config_ok_def Let_def)

lemma llegadas_memoria: "memoria_ok s \<Longrightarrow> memoria_ok (snd (procesar_llegadas az s))"
  by (auto simp: procesar_llegadas_def memoria_ok_def Let_def nth_append nuevo_cliente_def
      less_Suc_eq)

lemma llegadas_cola:
  "config_ok s \<Longrightarrow> cola_ok s \<Longrightarrow> cola_ok (snd (procesar_llegadas az s))"
  by (auto simp: procesar_llegadas_def cola_ok_def config_ok_def Let_def nth_append
      nuevo_cliente_def)

lemma llegadas_boxes: "boxes_ok s \<Longrightarrow> boxes_ok (snd (procesar_llegadas az s))"
  by (fastforce simp: procesar_llegadas_def boxes_ok_def box_ok_def Let_def nth_append_left)

lemma llegadas_atendidos: "atendidos_ok s \<Longrightarrow> atendidos_ok (snd (procesar_llegadas az s))"
  by (fastforce simp: procesar_llegadas_def atendidos_ok_def Let_def nth_append_left)

lemma llegadas_abandonaron: "abandonaron_ok s \<Longrightarrow> abandonaron_ok (snd (procesar_llegadas az s))"
  by (fastforce simp: procesar_llegadas_def abandonaron_ok_def Let_def nth_append_left)

lemma llegadas_conservacion: "conservacion s \<Longrightarrow> conservacion (snd (procesar_llegadas az s))"
  by (auto simp: procesar_llegadas_def conservacion_def Let_def)

lemma llegadas_invariante: "invariante s \<Longrightarrow> invariante (snd (procesar_llegadas az s))"
  unfolding invariante_def
  using llegadas_config llegadas_memoria llegadas_cola llegadas_boxes llegadas_atendidos
    llegadas_abandonaron llegadas_conservacion by blast

subsection \<open>Assignment\<close>

lemma generar_tiempo_atencion_minimo: "60 \<le> fst (generar_tiempo_atencion az)"
  by (simp add: generar_tiempo_atencion_def Let_def)

lemma filter_update_gana:
  "i < length xs \<Longrightarrow> \<not> P (xs ! i) \<Longrightarrow> P x \<Longrightarrow>
   length (filter P (xs[i := x])) = Suc (length (filter P xs))"
  by (induction xs arbitrary: i) (auto simp: nth_Cons' split: nat.splits if_splits)

lemma filter_update_pierde:
  "i < length xs \<Longrightarrow> P (xs ! i) \<Longrightarrow> \<not> P x \<Longrightarrow>
   Suc (length (filter P (xs[i := x]))) = length (filter P xs)"
  by (induction xs arbitrary: i) (auto simp: nth_Cons' split: nat.splits if_splits)

lemma asignar_box_inactivo:
  "\<not> asignar_activo i s \<Longrightarrow> asignar_box i (az, s) = (az, s)"
  by (auto simp: asignar_box_def asignar_activo_def Let_def)

lemma asignar_box_activo:
  "asignar_activo i s \<Longrightarrow>
   snd (asignar_box i (az, s)) =
     s\<lparr>cola := tl (cola s),
       boxes := (boxes s)[i := (boxes s ! i)\<lparr>ocupado := True,
                   cliente_actual := Some (hd (cola s)),
                   box_tiempo_fin_atencion :=
                     Some (tiempo_actual s + fst (generar_tiempo_atencion az))\<rparr>],
       memoria := (memoria s)[hd (cola s) := (memoria s ! hd (cola s))
                   \<lparr>tiempo_inicio_atencion := Some (tiempo_actual s),
                    box_asignado := Some (box_id (boxes s ! i))\<rparr>]\<rparr>"
  by (auto simp: asignar_box_def asignar_activo_def Let_def split_def)

lemma asignar_box_config:
  "config_ok s \<Longrightarrow> config_ok (snd (asignar_box i (az, s)))"
  by (cases "asignar_activo i s") (auto simp: asignar_box_inactivo asignar_box_activo config_ok_def)

lemma asignar_box_memoria:
  "memoria_ok s \<Longrightarrow> cola_ok s \<Longrightarrow> memoria_ok (snd (asignar_box i (az, s)))"
  by (cases "asignar_activo i s")
     (auto simp: asignar_box_inactivo asignar_box_activo memoria_ok_def cola_ok_def
        asignar_activo_def nth_list_update)

lemma asignar_box_cola:
  "cola_ok s \<Longrightarrow> cola_ok (snd (asignar_box i (az, s)))"
proof (cases "asignar_activo i s")
  case True
  assume c: "cola_ok s"
  from True obtain h q where q: "cola s = h # q"
    by (cases "cola s") (auto simp: asignar_activo_def)
  with c show ?thesis
    by (auto simp: asignar_box_activo[OF True] cola_ok_def nth_list_update)
qed (simp add: asignar_box_inactivo)

lemma box_ok_marco:
  assumes "box_ok s b" "tiempo_actual s' = tiempo_actual s"
    "length (memoria s') = length (memoria s)"
    "\<And>r. ocupado b \<Longrightarrow> cliente_actual b = Some r \<Longrightarrow> r < length (memoria s) \<Longrightarrow>
       tiempo_inicio_atencion (memoria s' ! r) = tiempo_inicio_atencion (memoria s ! r) \<and>
       abandono (memoria s' ! r) = abandono (memoria s ! r)"
  shows "box_ok s' b"
  using assms unfolding box_ok_def by fastforce

lemma cola_ok_cabeza:
  assumes "cola_ok s" "cola s \<noteq> []"
  shows "hd (cola s) < length (memoria s)"
    "tiempo_inicio_atencion (memoria s ! hd (cola s)) = None"
    "\<not> abandono (memoria s ! hd (cola s))"
  using assms by (auto simp: cola_ok_def)

lemma asignar_box_boxes:
  assumes "boxes_ok s" "cola_ok s" "i < length (boxes s)"
  shows "boxes_ok (snd (asignar_box i (az, s)))"
proof (cases "asignar_activo i s")
  case True
  define s' where "s' = snd (asignar_box i (az, s))"
  note e = asignar_box_activo[OF True, of az, folded s'_def]
  from True have "cola s \<noteq> []" by (simp add: asignar_activo_def)
  note h = cola_ok_cabeza[OF assms(2) this]
  have g: "60 \<le> fst (generar_tiempo_atencion az)" by (rule generar_tiempo_atencion_minimo)
  have "box_ok s' (boxes s' ! j)" if "j < length (boxes s')" for j
  proof (cases "j = i")
    case True
    with assms(3) h g show ?thesis by (simp add: e box_ok_def)
  next
    case False
    from that have "j < length (boxes s)" by (simp add: e)
    with assms(1) have b: "box_ok s (boxes s ! j)" by (simp add: boxes_ok_def)
    then have "box_ok s' (boxes s ! j)"
      by (rule box_ok_marco) (use b h in \<open>auto simp: e box_ok_def nth_list_update\<close>)
    with False show ?thesis by (simp add: e)
  qed
  then show ?thesis by (simp add: boxes_ok_def s'_def)
qed (use assms in \<open>simp add: asignar_box_inactivo\<close>)

lemma asignar_box_atendidos:
  assumes a: "atendidos_ok s" and c: "cola_ok s"
  shows "atendidos_ok (snd (asignar_box i (az, s)))"
proof (cases "asignar_activo i s")
  case True
  then have "cola s \<noteq> []" by (simp add: asignar_activo_def)
  note h = cola_ok_cabeza[OF c this]
  have "\<And>r. r \<in> set (clientes_atendidos s) \<Longrightarrow> r \<noteq> hd (cola s)"
    using a h(2) by (auto simp: atendidos_ok_def)
  with a h(1) show ?thesis
    by (auto simp: asignar_box_activo[OF True] atendidos_ok_def nth_list_update)
qed (use a in \<open>simp add: asignar_box_inactivo\<close>)

lemma asignar_box_abandonaron:
  assumes a: "abandonaron_ok s" and c: "cola_ok s"
  shows "abandonaron_ok (snd (asignar_box i (az, s)))"
proof (cases "asignar_activo i s")
  case True
  then have "cola s \<noteq> []" by (simp add: asignar_activo_def)
  note h = cola_ok_cabeza[OF c this]
  have "\<And>r. r \<in> set (clientes_abandonaron s) \<Longrightarrow> r \<noteq> hd (cola s)"
    using a h(3) by (auto simp: abandonaron_ok_def)
  with a h(1) show ?thesis
    by (auto simp: asignar_box_activo[OF True] abandonaron_ok_def nth_list_update)
qed (use a in \<open>simp add: asignar_box_inactivo\<close>)

lemma asignar_box_conservacion:
  assumes a: "conservacion s" and i: "i < length (boxes s)"
  shows "conservacion (snd (asignar_box i (az, s)))"
proof (cases "asignar_activo i s")
  case True
  from True obtain h q where q: "cola s = h # q"
    by (cases "cola s") (auto simp: asignar_activo_def)
  from True have n: "\<not> ocupado (boxes s ! i)" by (simp add: asignar_activo_def)
  from a q show ?thesis
    by (simp add: asignar_box_activo[OF True] conservacion_def
        filter_update_gana[of i "boxes s" ocupado, OF i n])
qed (use a in \<open>simp add: asignar_box_inactivo\<close>)

lemma asignar_box_invariante:
  assumes "invariante s" "i < length (boxes s)"
  shows "invariante (snd (asignar_box i (az, s)))"
  using assms unfolding invariante_def
  by (simp add: asignar_box_config asignar_box_memoria asignar_box_cola asignar_box_boxes
    asignar_box_atendidos asignar_box_abandonaron asignar_box_conservacion)

lemma asignar_box_length:
  "length (boxes (snd (asignar_box i (az, s)))) = length (boxes s)"
  by (cases "asignar_activo i s") (simp_all add: asignar_box_inactivo asignar_box_activo)

lemma asignar_box_tiempo:
  "tiempo_actual (snd (asignar_box i (az, s))) = tiempo_actual s"
  by (cases "asignar_activo i s") (simp_all add: asignar_box_inactivo asignar_box_activo)

lemma fold_asignar_invariante:
  "invariante s \<Longrightarrow> \<forall>x\<in>set xs. x < length (boxes s) \<Longrightarrow>
   invariante (snd (fold asignar_box xs (az, s))) \<and>
   length (boxes (snd (fold asignar_box xs (az, s)))) = length (boxes s) \<and>
   tiempo_actual (snd (fold asignar_box xs (az, s))) = tiempo_actual s"
proof (induction xs arbitrary: az s)
  case Nil
  then show ?case by simp
next
  case (Cons x xs)
  obtain az1 s1 where p: "asignar_box x (az, s) = (az1, s1)" by (cases "asignar_box x (az, s)")
  from Cons.prems have x: "x < length (boxes s)" by simp
  from p have s1: "s1 = snd (asignar_box x (az, s))" by simp
  have i1: "invariante s1" unfolding s1 by (rule asignar_box_invariante[OF Cons.prems(1) x])
  have l1: "length (boxes s1) = length (boxes s)" unfolding s1 by (rule asignar_box_length)
  have t1: "tiempo_actual s1 = tiempo_actual s" unfolding s1 by (rule asignar_box_tiempo)
  from Cons.prems l1 have "\<forall>x\<in>set xs. x < length (boxes s1)" by simp
  from Cons.IH[OF i1 this, of az1] p l1 t1 show ?case by simp
qed

lemma asignar_invariante:
  "invariante s \<Longrightarrow> invariante (snd (asignar_clientes_a_boxes az s))"
  using fold_asignar_invariante[of s "[0..<length (boxes s)]" az]
  by (auto simp add: asignar_clientes_a_boxes_def)

lemma asignar_tiempo:
  "invariante s \<Longrightarrow> tiempo_actual (snd (asignar_clientes_a_boxes az s)) = tiempo_actual s"
  using fold_asignar_invariante[of s "[0..<length (boxes s)]" az]
  by (auto simp add: asignar_clientes_a_boxes_def)

subsection \<open>Completion\<close>

lemma bucle_for_append:
  "bucle_for f (xs @ ys) s =
     (case bucle_for f xs s of Inl e \<Rightarrow> Inl e | Inr s' \<Rightarrow> bucle_for f ys s')"
  by (induction xs arbitrary: s) (auto split: sum.splits)

lemma bucle_for_upt:
  assumes "P 0 s"
    and "\<And>i s. i < n \<Longrightarrow> P i s \<Longrightarrow> \<exists>s'. f i s = Inr s' \<and> P (Suc i) s'"
  shows "\<exists>s'. bucle_for f [0..<n] s = Inr s' \<and> P n s'"
proof -
  have "m \<le> n \<Longrightarrow> \<exists>s'. bucle_for f [0..<m] s = Inr s' \<and> P m s'" for m
  proof (induction m)
    case 0
    with assms(1) show ?case by simp
  next
    case (Suc m)
    then obtain s1 where s1: "bucle_for f [0..<m] s = Inr s1" "P m s1" by auto
    from Suc.prems have "m < n" by simp
    from assms(2)[OF this s1(2)] obtain s2 where "f m s1 = Inr s2" "P (Suc m) s2" by auto
    with s1 show ?case by (simp add: bucle_for_append)
  qed
  then show ?thesis by simp
qed

lemma actualizar_estadisticas_contadores:
  "est_clientes_ingresados (actualizar_estadisticas c e) = est_clientes_ingresados e"
  "est_clientes_atendidos (actualizar_estadisticas c e) = est_clientes_atendidos e + 1"
  "est_clientes_abandonaron (actualizar_estadisticas c e) = est_clientes_abandonaron e"
  "costo_total (actualizar_estadisticas c e) = costo_total e"
  by (simp_all add: actualizar_estadisticas_def Let_def split: option.splits)

lemma finalizar_box_inactivo:
  assumes "box_ok s (boxes s ! i)" "\<not> finalizar_activo i s"
  shows "finalizar_box i s = Inr s"
  using assms by (auto simp: finalizar_box_def finalizar_activo_def box_ok_def Let_def)

lemma finalizar_box_activo:
  assumes "box_ok s (boxes s ! i)" "finalizar_activo i s"
  shows "\<exists>r a f. cliente_actual (boxes s ! i) = Some r \<and> r < length (memoria s) \<and>
           box_tiempo_fin_atencion (boxes s ! i) = Some f \<and>
           tiempo_inicio_atencion (memoria s ! r) = Some a \<and>
           \<not> abandono (memoria s ! r) \<and> a + 60 \<le> tiempo_actual s \<and>
           finalizar_box i s =
             Inr (s\<lparr>memoria := (memoria s)
                        [r := (memoria s ! r)\<lparr>tiempo_fin_atencion := Some (tiempo_actual s)\<rparr>],
                    clientes_atendidos := clientes_atendidos s @ [r],
                    estadisticas := actualizar_estadisticas
                        ((memoria s ! r)\<lparr>tiempo_fin_atencion := Some (tiempo_actual s)\<rparr>)
                        (estadisticas s),
                    boxes := (boxes s)[i := (boxes s ! i)\<lparr>ocupado := False,
                        cliente_actual := None, box_tiempo_fin_atencion := None\<rparr>]\<rparr>)"
  using assms by (auto simp: finalizar_box_def finalizar_activo_def box_ok_def Let_def)

lemma finalizar_box_invariante:
  assumes inv: "invariante s" and i: "i < length (boxes s)"
  shows "\<exists>s'. finalizar_box i s = Inr s' \<and> invariante s' \<and>
           length (boxes s') = length (boxes s) \<and> tiempo_actual s' = tiempo_actual s \<and>
           \<not> finalizar_activo i s' \<and>
           (\<forall>j. j \<noteq> i \<longrightarrow> boxes s' ! j = boxes s ! j)"
proof -
  from inv i have b: "box_ok s (boxes s ! i)" by (simp add: invariante_def boxes_ok_def)
  show ?thesis
  proof (cases "finalizar_activo i s")
    case False
    with finalizar_box_inactivo[OF b False] inv show ?thesis by simp
  next
    case True
    from finalizar_box_activo[OF b True] obtain r a f s' where
      r: "cliente_actual (boxes s ! i) = Some r" "r < length (memoria s)"
         "box_tiempo_fin_atencion (boxes s ! i) = Some f"
         "tiempo_inicio_atencion (memoria s ! r) = Some a"
         "\<not> abandono (memoria s ! r)" "a + 60 \<le> tiempo_actual s"
      and s': "s' = s\<lparr>memoria := (memoria s)
                        [r := (memoria s ! r)\<lparr>tiempo_fin_atencion := Some (tiempo_actual s)\<rparr>],
                    clientes_atendidos := clientes_atendidos s @ [r],
                    estadisticas := actualizar_estadisticas
                        ((memoria s ! r)\<lparr>tiempo_fin_atencion := Some (tiempo_actual s)\<rparr>)
                        (estadisticas s),
                    boxes := (boxes s)[i := (boxes s ! i)\<lparr>ocupado := False,
                        cliente_actual := None, box_tiempo_fin_atencion := None\<rparr>]\<rparr>"
      and f: "finalizar_box i s = Inr s'"
      by auto
    from True have oc: "ocupado (boxes s ! i)" by (simp add: finalizar_activo_def)
    have c1: "config_ok s'" using inv by (simp add: s' invariante_def config_ok_def)
    have c2: "memoria_ok s'" using inv r
      by (auto simp: s' invariante_def memoria_ok_def actualizar_estadisticas_contadores
          nth_list_update)
    have c3: "cola_ok s'" using inv r
      by (auto simp: s' invariante_def cola_ok_def nth_list_update)
    have c4: "boxes_ok s'"
      unfolding boxes_ok_def
    proof (intro allI impI)
      fix j assume "j < length (boxes s')"
      then have j: "j < length (boxes s)" by (simp add: s')
      show "box_ok s' (boxes s' ! j)"
      proof (cases "j = i")
        case True
        with i show ?thesis by (simp add: s' box_ok_def)
      next
        case False
        from inv j have "box_ok s (boxes s ! j)" by (simp add: invariante_def boxes_ok_def)
        then have "box_ok s' (boxes s ! j)"
          by (rule box_ok_marco) (use r(2) in \<open>auto simp: s' nth_list_update\<close>)
        with False show ?thesis by (simp add: s')
      qed
    qed
    have c5: "atendidos_ok s'" using inv r
      by (auto simp: s' invariante_def atendidos_ok_def actualizar_estadisticas_contadores
          nth_list_update)
    have c6: "abandonaron_ok s'" using inv r
      by (auto simp: s' invariante_def abandonaron_ok_def actualizar_estadisticas_contadores
          nth_list_update)
    have "Suc (length (filter ocupado ((boxes s)[i := (boxes s ! i)\<lparr>ocupado := False,
            cliente_actual := None, box_tiempo_fin_atencion := None\<rparr>]))) =
          length (filter ocupado (boxes s))"
      using i oc by (intro filter_update_pierde) simp_all
    then have c7: "conservacion s'" using inv
      by (simp add: s' invariante_def conservacion_def)
    have "\<not> finalizar_activo i s'" using i by (simp add: s' finalizar_activo_def)
    with c1 c2 c3 c4 c5 c6 c7 f show ?thesis
      by (simp add: invariante_def) (simp add: s')
  qed
qed

lemma finalizacion_invariante:
  assumes inv: "invariante s"
  shows "\<exists>s'. procesar_finalizacion_atencion s = Inr s' \<and> invariante s' \<and>
           tiempo_actual s' = tiempo_actual s \<and> boxes_adelante s'"
proof -
  define n where "n = length (boxes s)"
  define t where "t = tiempo_actual s"
  define P where "P = (\<lambda>i s'. invariante s' \<and> length (boxes s') = n \<and> tiempo_actual s' = t \<and>
     (\<forall>j<i. \<not> finalizar_activo j s'))"
  have 0: "P 0 s" using inv by (simp add: P_def n_def t_def)
  have paso: "\<exists>s''. finalizar_box i s' = Inr s'' \<and> P (Suc i) s''" if "i < n" "P i s'" for i s'
  proof -
    from that have "invariante s'" "i < length (boxes s')" by (simp_all add: P_def)
    from finalizar_box_invariante[OF this] obtain s'' where
      s'': "finalizar_box i s' = Inr s''" "invariante s''" "length (boxes s'') = length (boxes s')"
        "tiempo_actual s'' = tiempo_actual s'" "\<not> finalizar_activo i s''"
        "\<forall>j. j \<noteq> i \<longrightarrow> boxes s'' ! j = boxes s' ! j" by blast
    have "\<not> finalizar_activo j s''" if "j < Suc i" for j
    proof (cases "j = i")
      case True
      with s''(5) show ?thesis by simp
    next
      case False
      with that have "j < i" by simp
      with \<open>P i s'\<close> have "\<not> finalizar_activo j s'" by (simp add: P_def)
      with False s''(4,6) show ?thesis by (simp add: finalizar_activo_def)
    qed
    with s'' that(2) show ?thesis by (simp add: P_def)
  qed
  from bucle_for_upt[of P s n finalizar_box, OF 0 paso] obtain s' where
    s': "bucle_for finalizar_box [0..<n] s = Inr s'" "P n s'" by blast
  have "boxes_adelante s'"
    unfolding boxes_adelante_def
  proof (intro allI impI)
    fix i assume i: "i < length (boxes s')" and o: "ocupado (boxes s' ! i)"
    from s'(2) i have "box_ok s' (boxes s' ! i)" "\<not> finalizar_activo i s'"
      by (simp_all add: P_def invariante_def boxes_ok_def)
    with o show "\<exists>f. box_tiempo_fin_atencion (boxes s' ! i) = Some f \<and> tiempo_actual s' < f"
      by (auto simp: box_ok_def finalizar_activo_def)
  qed
  with s' show ?thesis
    by (simp add: procesar_finalizacion_atencion_def n_def P_def t_def)
qed

subsection \<open>Abandonment\<close>

text \<open>
  The first loop marks the queued customers that reached the waiting limit, in queue
  order. Ids are unique in the store, so the equality test of \<open>deque.remove\<close> finds the
  marked object itself, and the second loop leaves the queue without the marked customers
  and otherwise in order.
\<close>

lemma fold_marcar_abandono:
  assumes "\<forall>r\<in>set xs. r < length (memoria s)"
  shows "\<exists>m. fold marcar_abandono xs (s, []) =
           (s\<lparr>memoria := m,
              clientes_abandonaron := clientes_abandonaron s @ filter (vencido s) xs,
              estadisticas := (estadisticas s)\<lparr>est_clientes_abandonaron :=
                est_clientes_abandonaron (estadisticas s) +
                int (length (filter (vencido s) xs))\<rparr>\<rparr>,
            filter (vencido s) xs) \<and>
         length m = length (memoria s) \<and>
         (\<forall>r<length (memoria s).
            m ! r = (if r \<in> set (filter (vencido s) xs) then marcado s (memoria s ! r)
                     else memoria s ! r))"
  using assms
proof (induction xs rule: rev_induct)
  case Nil
  show ?case by (rule exI[of _ "memoria s"]) simp
next
  case (snoc x xs)
  then obtain m where m: "fold marcar_abandono xs (s, []) =
           (s\<lparr>memoria := m,
              clientes_abandonaron := clientes_abandonaron s @ filter (vencido s) xs,
              estadisticas := (estadisticas s)\<lparr>est_clientes_abandonaron :=
                est_clientes_abandonaron (estadisticas s) +
                int (length (filter (vencido s) xs))\<rparr>\<rparr>,
            filter (vencido s) xs)"
    and l: "length m = length (memoria s)"
    and v: "\<forall>r<length (memoria s).
            m ! r = (if r \<in> set (filter (vencido s) xs) then marcado s (memoria s ! r)
                     else memoria s ! r)"
    by auto
  from snoc.prems have x: "x < length (memoria s)" by simp
  with v have ti: "tiempo_ingreso (m ! x) = tiempo_ingreso (memoria s ! x)"
    by (simp add: marcado_def)
  show ?case
  proof (cases "vencido s x")
    case False
    with ti have "fold marcar_abandono (xs @ [x]) (s, []) = fold marcar_abandono xs (s, [])"
      by (simp add: m marcar_abandono_def vencido_def Let_def)
    with m l v False show ?thesis by auto
  next
    case True
    let ?m = "m[x := marcado s (m ! x)]"
    have mx: "marcado s (m ! x) = marcado s (memoria s ! x)"
      using v x by (simp add: marcado_def)
    from True ti have "fold marcar_abandono (xs @ [x]) (s, []) =
       (s\<lparr>memoria := ?m,
              clientes_abandonaron := clientes_abandonaron s @ filter (vencido s) (xs @ [x]),
              estadisticas := (estadisticas s)\<lparr>est_clientes_abandonaron :=
                est_clientes_abandonaron (estadisticas s) +
                int (length (filter (vencido s) (xs @ [x])))\<rparr>\<rparr>,
            filter (vencido s) (xs @ [x]))"
      by (simp add: m marcar_abandono_def vencido_def marcado_def Let_def)
    moreover have "length ?m = length (memoria s)" using l by simp
    moreover have "\<forall>r<length (memoria s).
            ?m ! r = (if r \<in> set (filter (vencido s) (xs @ [x])) then marcado s (memoria s ! r)
                     else memoria s ! r)"
      using v l x True mx by (auto simp: nth_list_update)
    ultimately show ?thesis by blast
  qed
qed

lemma deque_remove_remove1:
  assumes "\<forall>x\<in>set q. x < length mem" "\<forall>x<length mem. cliente_id (mem ! x) = int x"
    "r \<in> set q"
  shows "deque_remove mem q r = Inr (remove1 r q)"
  using assms
proof (induction q)
  case Nil
  then show ?case by simp
next
  case (Cons x xs)
  show ?case
  proof (cases "x = r")
    case True
    then show ?thesis by simp
  next
    case False
    with Cons.prems have r: "r \<in> set xs" "r < length mem" "x < length mem" by auto
    with Cons.prems(2) have "cliente_id (mem ! x) \<noteq> cliente_id (mem ! r)" using False by simp
    then have "mem ! x \<noteq> mem ! r" by auto
    with False Cons.IH Cons.prems r show ?thesis by simp
  qed
qed

lemma bucle_remover_cliente:
  assumes "distinct ys" "set ys \<subseteq> set (cola s)" "distinct (cola s)"
    "\<forall>x\<in>set (cola s). x < length (memoria s)"
    "\<forall>x<length (memoria s). cliente_id (memoria s ! x) = int x"
  shows "bucle_for remover_cliente ys s = Inr (s\<lparr>cola := filter (\<lambda>x. x \<notin> set ys) (cola s)\<rparr>)"
  using assms
proof (induction ys arbitrary: s)
  case Nil
  then show ?case by simp
next
  case (Cons y ys)
  let ?s = "s\<lparr>cola := remove1 y (cola s)\<rparr>"
  from Cons.prems have y: "y \<in> set (cola s)" by simp
  have r: "remover_cliente y s = Inr ?s"
    using deque_remove_remove1[OF Cons.prems(4,5) y] by (simp add: remover_cliente_def)
  have f: "remove1 y (cola s) = filter (\<lambda>x. x \<noteq> y) (cola s)"
    using Cons.prems(3) by (simp add: distinct_remove1_removeAll removeAll_filter_not_eq) metis
  have "bucle_for remover_cliente ys ?s = Inr (?s\<lparr>cola := filter (\<lambda>x. x \<notin> set ys) (cola ?s)\<rparr>)"
    using Cons.prems by (intro Cons.IH) (auto simp: f)
  with r show ?case by (simp add: f conj_commute)
qed

lemma procesar_abandonos_efecto:
  assumes c: "cola_ok s" and m: "memoria_ok s"
  shows "\<exists>m. procesar_abandonos s =
           Inr (s\<lparr>memoria := m,
                  clientes_abandonaron :=
                    clientes_abandonaron s @ filter (vencido s) (cola s),
                  estadisticas := (estadisticas s)\<lparr>est_clientes_abandonaron :=
                    est_clientes_abandonaron (estadisticas s) +
                    int (length (filter (vencido s) (cola s)))\<rparr>,
                  cola := filter (\<lambda>r. \<not> vencido s r) (cola s)\<rparr>) \<and>
         length m = length (memoria s) \<and>
         (\<forall>r<length (memoria s).
            m ! r = (if r \<in> set (cola s) \<and> vencido s r then marcado s (memoria s ! r)
                     else memoria s ! r))"
proof -
  from c have v: "\<forall>r\<in>set (cola s). r < length (memoria s)" by (simp add: cola_ok_def)
  from fold_marcar_abandono[OF v] obtain m where
    f: "fold marcar_abandono (cola s) (s, []) =
           (s\<lparr>memoria := m,
              clientes_abandonaron := clientes_abandonaron s @ filter (vencido s) (cola s),
              estadisticas := (estadisticas s)\<lparr>est_clientes_abandonaron :=
                est_clientes_abandonaron (estadisticas s) +
                int (length (filter (vencido s) (cola s)))\<rparr>\<rparr>,
            filter (vencido s) (cola s))"
    and l: "length m = length (memoria s)"
    and e: "\<forall>r<length (memoria s).
            m ! r = (if r \<in> set (filter (vencido s) (cola s)) then marcado s (memoria s ! r)
                     else memoria s ! r)"
    by blast
  let ?s1 = "s\<lparr>memoria := m,
              clientes_abandonaron := clientes_abandonaron s @ filter (vencido s) (cola s),
              estadisticas := (estadisticas s)\<lparr>est_clientes_abandonaron :=
                est_clientes_abandonaron (estadisticas s) +
                int (length (filter (vencido s) (cola s)))\<rparr>\<rparr>"
  have ids: "\<forall>x<length (memoria ?s1). cliente_id (memoria ?s1 ! x) = int x"
    using m l e by (auto simp: memoria_ok_def marcado_def)
  have "bucle_for remover_cliente (filter (vencido s) (cola s)) ?s1 =
     Inr (?s1\<lparr>cola := filter (\<lambda>x. x \<notin> set (filter (vencido s) (cola s))) (cola ?s1)\<rparr>)"
    using c l by (intro bucle_remover_cliente ids) (auto simp: cola_ok_def)
  moreover have "filter (\<lambda>x. x \<notin> set (filter (vencido s) (cola s))) (cola s) =
      filter (\<lambda>r. \<not> vencido s r) (cola s)"
    by (rule filter_cong) auto
  ultimately have "procesar_abandonos s = Inr (s\<lparr>memoria := m,
                  clientes_abandonaron :=
                    clientes_abandonaron s @ filter (vencido s) (cola s),
                  estadisticas := (estadisticas s)\<lparr>est_clientes_abandonaron :=
                    est_clientes_abandonaron (estadisticas s) +
                    int (length (filter (vencido s) (cola s)))\<rparr>,
                  cola := filter (\<lambda>r. \<not> vencido s r) (cola s)\<rparr>)"
    by (simp add: procesar_abandonos_def f)
  with l e show ?thesis by auto
qed

lemma abandonos_invariante:
  assumes inv: "invariante s" and ba: "boxes_adelante s"
  shows "\<exists>s'. procesar_abandonos s = Inr s' \<and> invariante s' \<and>
           tiempo_actual s' = tiempo_actual s \<and> boxes_adelante s' \<and> cola_adelante s'"
proof -
  from inv have c: "cola_ok s" and mo: "memoria_ok s" by (simp_all add: invariante_def)
  from procesar_abandonos_efecto[OF c mo] obtain m s' where
    s': "s' = s\<lparr>memoria := m,
                  clientes_abandonaron :=
                    clientes_abandonaron s @ filter (vencido s) (cola s),
                  estadisticas := (estadisticas s)\<lparr>est_clientes_abandonaron :=
                    est_clientes_abandonaron (estadisticas s) +
                    int (length (filter (vencido s) (cola s)))\<rparr>,
                  cola := filter (\<lambda>r. \<not> vencido s r) (cola s)\<rparr>"
    and p: "procesar_abandonos s = Inr s'"
    and l: "length m = length (memoria s)"
    and e: "\<forall>r<length (memoria s).
            m ! r = (if r \<in> set (cola s) \<and> vencido s r then marcado s (memoria s ! r)
                     else memoria s ! r)"
    by blast
  have igual: "m ! r = memoria s ! r"
    if "r < length (memoria s)" "tiempo_inicio_atencion (memoria s ! r) \<noteq> None" for r
    using that e c by (auto simp: cola_ok_def)
  have c1: "config_ok s'" using inv by (simp add: s' invariante_def config_ok_def)
  have c2: "memoria_ok s'" using mo c l e
    by (auto simp: s' memoria_ok_def cola_ok_def marcado_def)
  have c3: "cola_ok s'" using c l e
    by (auto simp: s' cola_ok_def)
  have c4: "boxes_ok s'"
    unfolding boxes_ok_def
  proof (intro allI impI)
    fix j assume "j < length (boxes s')"
    then have j: "j < length (boxes s)" by (simp add: s')
    with inv have b: "box_ok s (boxes s ! j)" by (simp add: invariante_def boxes_ok_def)
    then have "box_ok s' (boxes s ! j)"
    proof (rule box_ok_marco)
      fix r assume "ocupado (boxes s ! j)" "cliente_actual (boxes s ! j) = Some r"
        "r < length (memoria s)"
      with b e c show "tiempo_inicio_atencion (memoria s' ! r) =
         tiempo_inicio_atencion (memoria s ! r) \<and>
         abandono (memoria s' ! r) = abandono (memoria s ! r)"
        by (simp add: s' marcado_def) (auto simp: box_ok_def cola_ok_def)
    qed (simp_all add: s' l)
    then show "box_ok s' (boxes s' ! j)" by (simp add: s')
  qed
  have c5: "atendidos_ok s'" using inv l igual
    by (auto simp: s' invariante_def atendidos_ok_def)
  have c6: "abandonaron_ok s'" using inv l e
    by (auto simp: s' invariante_def abandonaron_ok_def cola_ok_def marcado_def vencido_def)
  have c7: "conservacion s'"
    using inv sum_length_filter_compl[of "vencido s" "cola s"]
    by (simp add: s' invariante_def conservacion_def)
  have c8: "boxes_adelante s'" using ba by (simp add: s' boxes_adelante_def)
  have c9: "cola_adelante s'" using c e
    by (auto simp: s' cola_adelante_def cola_ok_def vencido_def)
  from c1 c2 c3 c4 c5 c6 c7 c8 c9 p show ?thesis
    by (simp add: invariante_def) (simp add: s')
qed

subsection \<open>The whole tick\<close>

lemma tick_invariante:
  assumes "invariante s" "boxes_adelante s" "cola_adelante s"
  shows "invariante (s\<lparr>tiempo_actual := tiempo_actual s + 1\<rparr>)"
proof -
  let ?s = "s\<lparr>tiempo_actual := tiempo_actual s + 1\<rparr>"
  have "boxes_ok ?s" using assms(1,2)
    by (fastforce simp: invariante_def boxes_ok_def box_ok_def boxes_adelante_def)
  moreover have "cola_ok ?s" using assms(1,3)
    by (auto simp: invariante_def cola_ok_def cola_adelante_def)
  moreover have "config_ok ?s" using assms(1) by (simp add: invariante_def config_ok_def)
  moreover have "memoria_ok ?s" using assms(1) by (simp add: invariante_def memoria_ok_def)
  moreover have "atendidos_ok ?s" using assms(1) by (simp add: invariante_def atendidos_ok_def)
  moreover have "abandonaron_ok ?s" using assms(1)
    by (fastforce simp: invariante_def abandonaron_ok_def)
  moreover have "conservacion ?s" using assms(1) by (simp add: invariante_def conservacion_def)
  ultimately show ?thesis by (simp add: invariante_def)
qed

lemma crece_refl: "crece s s"
  by (simp add: crece_def)

lemma crece_trans: "crece a b \<Longrightarrow> crece b c \<Longrightarrow> crece a c"
  by (auto simp: crece_def)

lemma solo_libera_refl: "solo_libera s s"
  by (simp add: solo_libera_def)

lemma solo_libera_trans: "solo_libera a b \<Longrightarrow> solo_libera b c \<Longrightarrow> solo_libera a c"
  unfolding solo_libera_def by auto

lemma llegadas_crece: "crece s (snd (procesar_llegadas az s))"
  by (auto simp: procesar_llegadas_def crece_def Let_def nth_append)

lemma llegadas_cerrado:
  "DURACION_SIMULACION s \<le> tiempo_actual s \<Longrightarrow> procesar_llegadas az s = (az, s)"
  by (simp add: procesar_llegadas_def)

lemma asignar_box_crece: "crece s (snd (asignar_box i (az, s)))"
proof (cases "asignar_activo i s")
  case True
  show ?thesis
    unfolding crece_def asignar_box_activo[OF True]
    by (cases "hd (cola s) < length (memoria s)") (auto simp: nth_list_update)
qed (simp add: asignar_box_inactivo crece_refl)

lemma asignar_box_memoria_length:
  "length (memoria (snd (asignar_box i (az, s)))) = length (memoria s)"
  by (cases "asignar_activo i s") (simp_all add: asignar_box_inactivo asignar_box_activo)

lemma fold_asignar_crece:
  "crece s (snd (fold asignar_box xs (az, s))) \<and>
   length (memoria (snd (fold asignar_box xs (az, s)))) = length (memoria s)"
proof (induction xs arbitrary: az s)
  case Nil
  show ?case by (simp add: crece_refl)
next
  case (Cons x xs)
  obtain az1 s1 where p: "asignar_box x (az, s) = (az1, s1)" by (cases "asignar_box x (az, s)")
  then have s1: "s1 = snd (asignar_box x (az, s))" by simp
  have "crece s s1" "length (memoria s1) = length (memoria s)"
    unfolding s1 by (rule asignar_box_crece, rule asignar_box_memoria_length)
  with Cons.IH[of s1 az1] p show ?case by (auto intro: crece_trans)
qed

lemma fold_asignar_cola_vacia:
  "cola s = [] \<Longrightarrow> fold asignar_box xs (az, s) = (az, s)"
  by (induction xs) (simp_all add: asignar_box_inactivo asignar_activo_def)

lemma finalizar_box_marco:
  assumes "finalizar_box i s = Inr s'"
  shows "crece s s' \<and> solo_libera s s'"
proof (cases "s' = s")
  case True
  then show ?thesis by (simp add: crece_refl solo_libera_refl)
next
  case False
  with assms obtain r where s': "s' = s\<lparr>memoria := (memoria s)
                        [r := (memoria s ! r)\<lparr>tiempo_fin_atencion := Some (tiempo_actual s)\<rparr>],
                    clientes_atendidos := clientes_atendidos s @ [r],
                    estadisticas := actualizar_estadisticas
                        ((memoria s ! r)\<lparr>tiempo_fin_atencion := Some (tiempo_actual s)\<rparr>)
                        (estadisticas s),
                    boxes := (boxes s)[i := (boxes s ! i)\<lparr>ocupado := False,
                        cliente_actual := None, box_tiempo_fin_atencion := None\<rparr>]\<rparr>"
    by (auto simp: finalizar_box_def Let_def split: if_splits option.splits)
  have "crece s s'"
    unfolding crece_def s' by (cases "r < length (memoria s)") (auto simp: nth_list_update)
  moreover have "solo_libera s s'"
    unfolding solo_libera_def s'
    by (cases "i < length (boxes s)") (auto simp: nth_list_update list_update_beyond)
  ultimately show ?thesis by simp
qed

lemma bucle_for_relacion:
  assumes "\<And>x s s'. f x s = Inr s' \<Longrightarrow> R s s'" "\<And>s. R s s"
    "\<And>a b c. R a b \<Longrightarrow> R b c \<Longrightarrow> R a c"
  shows "bucle_for f xs s = Inr s' \<Longrightarrow> R s s'"
proof (induction xs arbitrary: s)
  case Nil
  with assms(2) show ?case by simp
next
  case (Cons x xs)
  then obtain s1 where "f x s = Inr s1" "bucle_for f xs s1 = Inr s'"
    by (auto split: sum.splits)
  with Cons.IH[of s1] assms(1,3) show ?case by blast
qed

lemma finalizacion_marco:
  assumes "procesar_finalizacion_atencion s = Inr s'"
  shows "crece s s' \<and> solo_libera s s'"
  using assms unfolding procesar_finalizacion_atencion_def
  by (rule bucle_for_relacion[where R = "\<lambda>a b. crece a b \<and> solo_libera a b", rotated 3])
     (auto intro: crece_refl crece_trans solo_libera_refl solo_libera_trans
        dest: finalizar_box_marco)

lemma abandonos_marco:
  assumes c: "cola_ok s" and m: "memoria_ok s" and p: "procesar_abandonos s = Inr s'"
  shows "crece s s' \<and> boxes s' = boxes s \<and> length (memoria s') = length (memoria s) \<and>
         set (cola s') \<subseteq> set (cola s)"
proof -
  from procesar_abandonos_efecto[OF c m] p obtain mm where
    s': "s' = s\<lparr>memoria := mm,
                  clientes_abandonaron :=
                    clientes_abandonaron s @ filter (vencido s) (cola s),
                  estadisticas := (estadisticas s)\<lparr>est_clientes_abandonaron :=
                    est_clientes_abandonaron (estadisticas s) +
                    int (length (filter (vencido s) (cola s)))\<rparr>,
                  cola := filter (\<lambda>r. \<not> vencido s r) (cola s)\<rparr>"
    and l: "length mm = length (memoria s)"
    and e: "\<forall>r<length (memoria s).
            mm ! r = (if r \<in> set (cola s) \<and> vencido s r then marcado s (memoria s ! r)
                     else memoria s ! r)"
    by auto
  have "crece s s'" using l e by (auto simp: crece_def s' marcado_def)
  with l show ?thesis by (auto simp: s')
qed

lemma simular_paso_fases:
  assumes inv: "invariante s"
  obtains az1 s1 az2 s2 s3 s4 where
    "procesar_llegadas az s = (az1, s1)" "asignar_clientes_a_boxes az1 s1 = (az2, s2)"
    "procesar_finalizacion_atencion s2 = Inr s3" "procesar_abandonos s3 = Inr s4"
    "simular_paso az s = Inr (az2, s4\<lparr>tiempo_actual := tiempo_actual s + 1\<rparr>)"
    "invariante s1" "invariante s2" "invariante s3" "invariante s4"
    "boxes_adelante s4" "cola_adelante s4" "tiempo_actual s4 = tiempo_actual s"
proof -
  obtain az1 s1 where p1: "procesar_llegadas az s = (az1, s1)"
    by (cases "procesar_llegadas az s")
  obtain az2 s2 where p2: "asignar_clientes_a_boxes az1 s1 = (az2, s2)"
    by (cases "asignar_clientes_a_boxes az1 s1")
  have i1: "invariante s1" using llegadas_invariante[OF inv, of az] p1 by simp
  have t1: "tiempo_actual s1 = tiempo_actual s"
    using p1 by (auto simp: procesar_llegadas_def Let_def split: if_splits)
  have i2: "invariante s2" using asignar_invariante[OF i1, of az1] p2 by simp
  have t2: "tiempo_actual s2 = tiempo_actual s1" using asignar_tiempo[OF i1, of az1] p2 by simp
  from finalizacion_invariante[OF i2] obtain s3 where
    p3: "procesar_finalizacion_atencion s2 = Inr s3" and i3: "invariante s3"
    and t3: "tiempo_actual s3 = tiempo_actual s2" and b3: "boxes_adelante s3" by blast
  from abandonos_invariante[OF i3 b3] obtain s4 where
    p4: "procesar_abandonos s3 = Inr s4" and i4: "invariante s4"
    and t4: "tiempo_actual s4 = tiempo_actual s3" and b4: "boxes_adelante s4"
    and c4: "cola_adelante s4" by blast
  have t: "tiempo_actual s4 = tiempo_actual s" using t1 t2 t3 t4 by simp
  have ps: "simular_paso az s = Inr (az2, s4\<lparr>tiempo_actual := tiempo_actual s + 1\<rparr>)"
    by (simp add: simular_paso_def p1 p2 p3 p4 t)
  show ?thesis by (rule that[OF p1 p2 p3 p4 ps i1 i2 i3 i4 b4 c4 t])
qed

lemma simular_paso_invariante:
  assumes inv: "invariante s"
  shows "\<exists>az' s'. simular_paso az s = Inr (az', s') \<and> invariante s' \<and>
           tiempo_actual s' = tiempo_actual s + 1 \<and> abandonos_pasados s'"
proof -
  from inv obtain az2 s4 where
    p: "simular_paso az s = Inr (az2, s4\<lparr>tiempo_actual := tiempo_actual s + 1\<rparr>)"
    and i4: "invariante s4" "boxes_adelante s4" "cola_adelante s4"
    and t: "tiempo_actual s4 = tiempo_actual s"
    by (rule simular_paso_fases[of s az])
  have "abandonos_pasados (s4\<lparr>tiempo_actual := tiempo_actual s + 1\<rparr>)"
    using i4(1) t by (fastforce simp: abandonos_pasados_def invariante_def abandonaron_ok_def)
  with tick_invariante[OF i4] p t show ?thesis by simp
qed

lemma simular_paso_marco:
  assumes inv: "invariante s" and p: "simular_paso az s = Inr (az', s')"
  shows "crece s s'"
    and "DURACION_SIMULACION s \<le> tiempo_actual s \<Longrightarrow>
           length (memoria s') = length (memoria s)"
    and "DURACION_SIMULACION s \<le> tiempo_actual s \<Longrightarrow> cola s = [] \<Longrightarrow>
           cola s' = [] \<and> length (boxes s') = length (boxes s) \<and>
           (\<forall>j. ocupado (boxes s' ! j) \<longrightarrow> boxes s' ! j = boxes s ! j)"
proof -
  from inv obtain az1 s1 az2 s2 s3 s4 where
    p1: "procesar_llegadas az s = (az1, s1)"
    and p2: "asignar_clientes_a_boxes az1 s1 = (az2, s2)"
    and p3: "procesar_finalizacion_atencion s2 = Inr s3"
    and p4: "procesar_abandonos s3 = Inr s4"
    and ps: "simular_paso az s = Inr (az2, s4\<lparr>tiempo_actual := tiempo_actual s + 1\<rparr>)"
    and i3: "invariante s3"
    by (rule simular_paso_fases[of s az])
  from p ps have s': "s' = s4\<lparr>tiempo_actual := tiempo_actual s + 1\<rparr>" by simp
  have c1: "crece s s1" using llegadas_crece[of s az] p1 by simp
  have c2: "crece s1 s2" "length (memoria s2) = length (memoria s1)"
    using fold_asignar_crece[of s1 "[0..<length (boxes s1)]" az1] p2
    by (simp_all add: asignar_clientes_a_boxes_def)
  note c3 = finalizacion_marco[OF p3]
  from i3 have "cola_ok s3" "memoria_ok s3" by (simp_all add: invariante_def)
  note c4 = abandonos_marco[OF this p4]
  have c5: "crece s4 s'" by (simp add: s' crece_def)
  show "crece s s'" using c1 c2(1) c3 c4 c5 by (blast intro: crece_trans)
  {
    assume d: "DURACION_SIMULACION s \<le> tiempo_actual s"
    then have e1: "s1 = s" using llegadas_cerrado[of s az] p1 by simp
    with c2 c3 c4 show "length (memoria s') = length (memoria s)"
      by (simp add: s' solo_libera_def)
    assume "cola s = []"
    with e1 p2 have e2: "s2 = s"
      by (simp add: asignar_clientes_a_boxes_def fold_asignar_cola_vacia)
    with c3 c4 \<open>cola s = []\<close> show "cola s' = [] \<and> length (boxes s') = length (boxes s) \<and>
           (\<forall>j. ocupado (boxes s' ! j) \<longrightarrow> boxes s' ! j = boxes s ! j)"
      by (simp add: s' solo_libera_def)
  }
qed

lemma alcanzable_invariantes: "alcanzable s \<Longrightarrow> invariante s \<and> abandonos_pasados s"
proof (induction rule: alcanzable.induct)
  case (alcanzable_inicial n v s)
  then show ?case
    by (auto simp: invariante_inicial abandonos_pasados_def SimuladorAtencionPublico_def
        split: if_splits)
next
  case (alcanzable_paso s az az' s')
  with simular_paso_invariante[of s az] show ?case by auto
qed

lemma alcanzable_invariante: "alcanzable s \<Longrightarrow> invariante s"
  by (simp add: alcanzable_invariantes)

lemma alcanzable_abandonos_pasados: "alcanzable s \<Longrightarrow> abandonos_pasados s"
  by (simp add: alcanzable_invariantes)

lemma evoluciona_alcanzable: "evoluciona s s' \<Longrightarrow> alcanzable s \<Longrightarrow> alcanzable s'"
  by (induction rule: evoluciona.induct) (auto intro: alcanzable_paso)

lemma evoluciona_crece:
  "evoluciona s s' \<Longrightarrow> alcanzable s \<Longrightarrow> crece s s'"
proof (induction rule: evoluciona.induct)
  case (evoluciona_refl s)
  show ?case by (rule crece_refl)
next
  case (evoluciona_paso s s' az az' s'')
  then have "alcanzable s'" by (simp add: evoluciona_alcanzable)
  then have "invariante s'" by (simp add: alcanzable_invariante)
  from simular_paso_marco(1)[OF this evoluciona_paso.hyps(2)] evoluciona_paso
  show ?case by (blast intro: crece_trans)
qed

lemma evoluciona_desde_paso:
  "evoluciona s1 s' \<Longrightarrow> simular_paso az s = Inr (az1, s1) \<Longrightarrow> evoluciona s s'"
proof (induction rule: evoluciona.induct)
  case (evoluciona_refl s1)
  then show ?case by (blast intro: evoluciona.intros)
next
  case (evoluciona_paso s1 s' az' az'' s'')
  then show ?case by (blast intro: evoluciona.intros)
qed

section \<open>The run ends\<close>

lemma boxes_hasta_existe:
  assumes "boxes_ok s"
  shows "\<exists>F. boxes_hasta F s"
proof -
  define g where "g = (\<lambda>b::Box. case box_tiempo_fin_atencion b of Some f \<Rightarrow> f | None \<Rightarrow> (0::int))"
  define F where "F = Max (insert 0 (g ` set (boxes s)))"
  have "f \<le> F" if "j < length (boxes s)" "box_tiempo_fin_atencion (boxes s ! j) = Some f" for j f
  proof -
    from that have "g (boxes s ! j) = f" "boxes s ! j \<in> set (boxes s)"
      by (simp_all add: g_def)
    then have "f \<in> insert 0 (g ` set (boxes s))" by blast
    then show ?thesis unfolding F_def by (intro Max_ge) auto
  qed
  with assms have "boxes_hasta F s"
    by (fastforce simp: boxes_hasta_def boxes_ok_def box_ok_def)
  then show ?thesis ..
qed

lemma condicion_finalizacion_falsa:
  assumes "\<not> condicion_finalizacion s" "cola s = []" "DURACION_SIMULACION s \<le> tiempo_actual s"
  shows "\<exists>j<length (boxes s). ocupado (boxes s ! j)"
  using assms by (auto simp: condicion_finalizacion_def list_ex_iff in_set_conv_nth)

lemma drenaje_termina:
  assumes "invariante s" "cola s = []" "DURACION_SIMULACION s \<le> tiempo_actual s"
    "boxes_hasta F s"
  shows "\<exists>az' s'. bucle_simulacion az s = Some (Inr (az', s')) \<and>
           condicion_finalizacion s' \<and> evoluciona s s'"
  using assms
proof (induction "nat (F + 1 - tiempo_actual s)" arbitrary: s az rule: less_induct)
  case less
  show ?case
  proof (cases "condicion_finalizacion s")
    case True
    then show ?thesis
      by (subst bucle_simulacion.simps) (auto intro: evoluciona_refl)
  next
    case False
    from condicion_finalizacion_falsa[OF False less.prems(2,3)] obtain j where
      j: "j < length (boxes s)" "ocupado (boxes s ! j)" by blast
    with less.prems(1,4) obtain f where "tiempo_actual s \<le> f" "f \<le> F"
      by (fastforce simp: invariante_def boxes_ok_def box_ok_def boxes_hasta_def)
    then have m: "tiempo_actual s \<le> F" by simp
    from simular_paso_invariante[OF less.prems(1), of az] obtain az1 s1 where
      p: "simular_paso az s = Inr (az1, s1)" and i1: "invariante s1"
      and t1: "tiempo_actual s1 = tiempo_actual s + 1" by blast
    note f = simular_paso_marco(3)[OF less.prems(1) p less.prems(3,2)]
    from less.prems(1) i1 have d: "DURACION_SIMULACION s1 = DURACION_SIMULACION s"
      by (simp add: invariante_def config_ok_def)
    have h1: "boxes_hasta F s1"
      using less.prems(4) f by (auto simp: boxes_hasta_def)
    have "nat (F + 1 - tiempo_actual s1) < nat (F + 1 - tiempo_actual s)"
      using m t1 by simp
    from less.hyps[OF this i1 _ _ h1, of az1] f d t1 less.prems(3) obtain az' s' where
      r: "bucle_simulacion az1 s1 = Some (Inr (az', s'))" "condicion_finalizacion s'"
        "evoluciona s1 s'" by auto
    have "bucle_simulacion az s = bucle_simulacion az1 s1"
      using False p by (subst bucle_simulacion.simps) simp
    with r evoluciona_desde_paso[OF r(3) p] show ?thesis by auto
  qed
qed

lemma cola_vacia_tras_espera:
  assumes "invariante s"
    "DURACION_SIMULACION s + TIEMPO_MAX_ESPERA s \<le> tiempo_actual s"
  shows "cola s = []"
proof (rule ccontr)
  assume "cola s \<noteq> []"
  then obtain r where "r \<in> set (cola s)" by (cases "cola s") auto
  with assms show False
    by (fastforce simp: invariante_def cola_ok_def memoria_ok_def)
qed

lemma bucle_simulacion_termina:
  assumes "invariante s"
  shows "\<exists>az' s'. bucle_simulacion az s = Some (Inr (az', s')) \<and>
           condicion_finalizacion s' \<and> evoluciona s s'"
  using assms
proof (induction "nat (DURACION_SIMULACION s + TIEMPO_MAX_ESPERA s - tiempo_actual s)"
    arbitrary: s az rule: less_induct)
  case less
  from less.prems have c: "DURACION_SIMULACION s = 14400" "TIEMPO_MAX_ESPERA s = 1800"
    by (simp_all add: invariante_def config_ok_def)
  show ?case
  proof (cases "DURACION_SIMULACION s + TIEMPO_MAX_ESPERA s \<le> tiempo_actual s")
    case True
    from less.prems have "boxes_ok s" by (simp add: invariante_def)
    then obtain F where "boxes_hasta F s" using boxes_hasta_existe by blast
    with less.prems cola_vacia_tras_espera[OF less.prems True] True c show ?thesis
      by (intro drenaje_termina[where F = F]) auto
  next
    case False
    show ?thesis
    proof (cases "condicion_finalizacion s")
      case True
      then show ?thesis
        by (subst bucle_simulacion.simps) (auto intro: evoluciona_refl)
    next
      case nf: False
      from simular_paso_invariante[OF less.prems, of az] obtain az1 s1 where
        p: "simular_paso az s = Inr (az1, s1)" and i1: "invariante s1"
        and t1: "tiempo_actual s1 = tiempo_actual s + 1" by blast
      from i1 have c1: "DURACION_SIMULACION s1 = 14400" "TIEMPO_MAX_ESPERA s1 = 1800"
        by (simp_all add: invariante_def config_ok_def)
      have "nat (DURACION_SIMULACION s1 + TIEMPO_MAX_ESPERA s1 - tiempo_actual s1)
          < nat (DURACION_SIMULACION s + TIEMPO_MAX_ESPERA s - tiempo_actual s)"
        using False c c1 t1 by simp
      from less.hyps[OF this i1, of az1] obtain az' s' where
        r: "bucle_simulacion az1 s1 = Some (Inr (az', s'))" "condicion_finalizacion s'"
          "evoluciona s1 s'" by auto
      have "bucle_simulacion az s = bucle_simulacion az1 s1"
        using nf p by (subst bucle_simulacion.simps) simp
      with r evoluciona_desde_paso[OF r(3) p] show ?thesis by auto
    qed
  qed
qed

section \<open>The run depends on the decisions only\<close>

lemma smap_igual:
  assumes "smap f A = smap f B"
  shows "f (shd A) = f (shd B)" "smap f (stl A) = smap f (stl B)"
  using arg_cong[OF assms, of shd] arg_cong[OF assms, of stl] by simp_all

lemma generar_mismas:
  assumes "mismas_decisiones p a b"
  shows "fst (generar_tiempo_atencion a) = fst (generar_tiempo_atencion b)"
    "mismas_decisiones p (snd (generar_tiempo_atencion a)) (snd (generar_tiempo_atencion b))"
  using assms smap_igual[of "\<lambda>x. max 60 (py_int x)" "np_random_normal a" "np_random_normal b"]
  by (simp_all add: mismas_decisiones_def generar_tiempo_atencion_def Let_def)

lemma llegadas_mismas:
  assumes "mismas_decisiones (PROB_INGRESO s) a b"
  shows "snd (procesar_llegadas a s) = snd (procesar_llegadas b s)"
    "mismas_decisiones (PROB_INGRESO s) (fst (procesar_llegadas a s)) (fst (procesar_llegadas b s))"
  using assms smap_igual[of "\<lambda>u. u < PROB_INGRESO s" "random_random a" "random_random b"]
  by (simp_all add: mismas_decisiones_def procesar_llegadas_def Let_def)

lemma asignar_box_mismas:
  assumes "mismas_decisiones p a b"
  shows "snd (asignar_box i (a, s)) = snd (asignar_box i (b, s))"
    "mismas_decisiones p (fst (asignar_box i (a, s))) (fst (asignar_box i (b, s)))"
  using assms generar_mismas[OF assms]
  by (simp_all add: asignar_box_def Let_def split_def)

lemma fold_asignar_mismas:
  assumes "mismas_decisiones p a b"
  shows "snd (fold asignar_box xs (a, s)) = snd (fold asignar_box xs (b, s)) \<and>
    mismas_decisiones p (fst (fold asignar_box xs (a, s))) (fst (fold asignar_box xs (b, s)))"
  using assms
proof (induction xs arbitrary: a b s)
  case Nil
  then show ?case by simp
next
  case (Cons x xs)
  obtain a1 s1 where pa: "asignar_box x (a, s) = (a1, s1)" by (cases "asignar_box x (a, s)")
  obtain b1 s2 where pb: "asignar_box x (b, s) = (b1, s2)" by (cases "asignar_box x (b, s)")
  from asignar_box_mismas[OF Cons.prems, of x s] pa pb
  have "s2 = s1" "mismas_decisiones p a1 b1" by simp_all
  with Cons.IH[of a1 b1 s1] pa pb show ?case by simp
qed

lemma simular_paso_mismas:
  assumes "mismas_decisiones (PROB_INGRESO s) a b" "simular_paso a s = Inr (a', s')"
  shows "\<exists>b'. simular_paso b s = Inr (b', s') \<and> mismas_decisiones (PROB_INGRESO s) a' b'"
proof -
  obtain a1 s1 where pa: "procesar_llegadas a s = (a1, s1)" by (cases "procesar_llegadas a s")
  obtain b1 t1 where pb: "procesar_llegadas b s = (b1, t1)" by (cases "procesar_llegadas b s")
  from llegadas_mismas[OF assms(1)] pa pb
  have 1: "t1 = s1" "mismas_decisiones (PROB_INGRESO s) a1 b1" by simp_all
  obtain a2 s2 where qa: "asignar_clientes_a_boxes a1 s1 = (a2, s2)"
    by (cases "asignar_clientes_a_boxes a1 s1")
  obtain b2 t2 where qb: "asignar_clientes_a_boxes b1 s1 = (b2, t2)"
    by (cases "asignar_clientes_a_boxes b1 s1")
  from fold_asignar_mismas[OF 1(2), of "[0..<length (boxes s1)]" s1] qa qb
  have 2: "t2 = s2" "mismas_decisiones (PROB_INGRESO s) a2 b2"
    by (simp_all add: asignar_clientes_a_boxes_def)
  from assms(2) have "a' = a2"
    by (auto simp: simular_paso_def pa qa split: sum.splits)
  moreover from assms(2) have "simular_paso b s = Inr (b2, s')"
    by (auto simp: simular_paso_def pa pb 1 qa qb 2 split: sum.splits)
  ultimately show ?thesis using 2(2) by auto
qed

lemma bucle_simulacion_mismas:
  assumes "bucle_simulacion a s = Some (Inr (a', s'))"
    "invariante s" "mismas_decisiones (PROB_INGRESO s) a b"
  shows "\<exists>b'. bucle_simulacion b s = Some (Inr (b', s'))"
proof -
  define P where "P = (\<lambda>a s (y :: error + Azar \<times> Simulador). \<forall>b a' s'. y = Inr (a', s') \<longrightarrow> invariante s \<longrightarrow>
       mismas_decisiones (PROB_INGRESO s) a b \<longrightarrow>
       (\<exists>b'. bucle_simulacion b s = Some (Inr (b', s'))))"
  have "P a s (Inr (a', s'))"
  proof (rule bucle_simulacion.raw_induct[where P = P, OF _ assms(1)])
    fix bucle a s y
    assume ih: "\<And>a s y. bucle a s = Some y \<Longrightarrow> P a s y"
      and eq: "(if condicion_finalizacion s then Some (Inr (a, s))
                else case simular_paso a s of Inl e \<Rightarrow> Some (Inl e)
                     | Inr (az', s') \<Rightarrow> bucle az' s') = Some y"
    show "P a s y"
      unfolding P_def
    proof (intro allI impI)
      fix b a' s'
      assume y: "y = Inr (a', s')" and inv: "invariante s"
        and m: "mismas_decisiones (PROB_INGRESO s) a b"
      show "\<exists>b'. bucle_simulacion b s = Some (Inr (b', s'))"
      proof (cases "condicion_finalizacion s")
        case True
        with eq y have "s' = s" by simp
        with True show ?thesis by (subst bucle_simulacion.simps) simp
      next
        case False
        from simular_paso_invariante[OF inv, of a] obtain a1 s1 where
          p: "simular_paso a s = Inr (a1, s1)" and i1: "invariante s1" by blast
        from simular_paso_mismas[OF m p] obtain b1 where
          q: "simular_paso b s = Inr (b1, s1)" and m1: "mismas_decisiones (PROB_INGRESO s) a1 b1"
          by blast
        from inv i1 have "PROB_INGRESO s1 = PROB_INGRESO s"
          by (simp add: invariante_def config_ok_def)
        with m1 have m1': "mismas_decisiones (PROB_INGRESO s1) a1 b1" by simp
        from eq False p have "bucle a1 s1 = Some y" by simp
        from ih[OF this] y i1 m1' obtain b' where
          "bucle_simulacion b1 s1 = Some (Inr (b', s'))" unfolding P_def by blast
        with False q show ?thesis by (subst bucle_simulacion.simps) simp
      qed
    qed
  qed
  with assms show ?thesis unfolding P_def by blast
qed

section \<open>Customers marked during a tick\<close>

lemma llegadas_abandonaron_igual:
  "clientes_abandonaron (snd (procesar_llegadas az s)) = clientes_abandonaron s"
  by (simp add: procesar_llegadas_def Let_def)

lemma fold_asignar_abandonaron_igual:
  "clientes_abandonaron (snd (fold asignar_box xs (az, s))) = clientes_abandonaron s"
proof (induction xs arbitrary: az s)
  case Nil
  show ?case by simp
next
  case (Cons x xs)
  obtain az1 s1 where p: "asignar_box x (az, s) = (az1, s1)" by (cases "asignar_box x (az, s)")
  then have "s1 = snd (asignar_box x (az, s))" by simp
  then have "clientes_abandonaron s1 = clientes_abandonaron s"
    by (cases "asignar_activo x s") (simp_all add: asignar_box_inactivo asignar_box_activo)
  with Cons.IH[of az1 s1] p show ?case by simp
qed

lemma finalizacion_abandonaron_igual:
  assumes "procesar_finalizacion_atencion s = Inr s'"
  shows "clientes_abandonaron s' = clientes_abandonaron s"
  using assms unfolding procesar_finalizacion_atencion_def
  by (rule bucle_for_relacion[where R = "\<lambda>a b. clientes_abandonaron b = clientes_abandonaron a",
        rotated 3])
     (auto simp: finalizar_box_def Let_def split: if_splits option.splits)

lemma abandonos_marcados:
  assumes c: "cola_ok s" and m: "memoria_ok s" and p: "procesar_abandonos s = Inr s'"
    and r: "r \<in> set (clientes_abandonaron s')" "r \<notin> set (clientes_abandonaron s)"
  shows "r \<notin> set (cola s') \<and> tiempo_abandono (memoria s' ! r) = Some (tiempo_actual s')"
proof -
  from procesar_abandonos_efecto[OF c m] p obtain mm where
    s': "s' = s\<lparr>memoria := mm,
                  clientes_abandonaron :=
                    clientes_abandonaron s @ filter (vencido s) (cola s),
                  estadisticas := (estadisticas s)\<lparr>est_clientes_abandonaron :=
                    est_clientes_abandonaron (estadisticas s) +
                    int (length (filter (vencido s) (cola s)))\<rparr>,
                  cola := filter (\<lambda>r. \<not> vencido s r) (cola s)\<rparr>"
    and e: "\<forall>r<length (memoria s).
            mm ! r = (if r \<in> set (cola s) \<and> vencido s r then marcado s (memoria s ! r)
                     else memoria s ! r)"
    by auto
  from r have v: "r \<in> set (cola s)" "vencido s r" by (simp_all add: s')
  with c have "r < length (memoria s)" by (simp add: cola_ok_def)
  with e v show ?thesis by (simp add: s' marcado_def)
qed

lemma simular_paso_abandonos:
  assumes inv: "invariante s" and p: "simular_paso az s = Inr (az', s')"
    and r: "r \<in> set (clientes_abandonaron s')" "r \<notin> set (clientes_abandonaron s)"
  shows "r \<notin> set (cola s') \<and> tiempo_abandono (memoria s' ! r) = Some (tiempo_actual s)"
proof -
  from inv obtain az1 s1 az2 s2 s3 s4 where
    p1: "procesar_llegadas az s = (az1, s1)"
    and p2: "asignar_clientes_a_boxes az1 s1 = (az2, s2)"
    and p3: "procesar_finalizacion_atencion s2 = Inr s3"
    and p4: "procesar_abandonos s3 = Inr s4"
    and ps: "simular_paso az s = Inr (az2, s4\<lparr>tiempo_actual := tiempo_actual s + 1\<rparr>)"
    and i3: "invariante s3" and i4: "invariante s4"
    and t4: "tiempo_actual s4 = tiempo_actual s"
    by (rule simular_paso_fases[of s az]) blast
  from p ps have s': "s' = s4\<lparr>tiempo_actual := tiempo_actual s + 1\<rparr>" by simp
  have "clientes_abandonaron s1 = clientes_abandonaron s"
    using llegadas_abandonaron_igual[of az s] p1 by simp
  moreover have "clientes_abandonaron s2 = clientes_abandonaron s1"
    using fold_asignar_abandonaron_igual[of "[0..<length (boxes s1)]" az1 s1] p2
    by (simp add: asignar_clientes_a_boxes_def)
  moreover note finalizacion_abandonaron_igual[OF p3]
  ultimately have a3: "clientes_abandonaron s3 = clientes_abandonaron s" by simp
  from i3 have "cola_ok s3" "memoria_ok s3" by (simp_all add: invariante_def)
  from abandonos_marcados[OF this p4, of r] r a3
  have "r \<notin> set (cola s4) \<and> tiempo_abandono (memoria s4 ! r) = Some (tiempo_actual s4)"
    by (simp add: s')
  with t4 show ?thesis by (simp add: s')
qed

section \<open>The example runs are reachable\<close>

lemmas eval_defs = SimuladorAtencionPublico_def simular_paso_def procesar_llegadas_def
  asignar_clientes_a_boxes_def asignar_box_def procesar_finalizacion_atencion_def
  finalizar_box_def procesar_abandonos_def marcar_abandono_def remover_cliente_def
  generar_tiempo_atencion_def py_int_def nuevo_box_def nuevo_cliente_def
  estadisticas_iniciales_def Let_def actualizar_estadisticas_def tiempo_atencion_def
  tiempo_espera_def

lemma alcanzable_pasos:
  "alcanzable s \<Longrightarrow> pasos n az s = Inr (az', s') \<Longrightarrow> alcanzable s'"
proof (induction n arbitrary: az s)
  case 0
  then show ?case by simp
next
  case (Suc n)
  then show ?case
    by (auto split: sum.splits intro: alcanzable_paso)
qed

lemma evoluciona_pasos: "pasos n az s = Inr (az', s') \<Longrightarrow> evoluciona s s'"
proof (induction n arbitrary: az s)
  case 0
  then show ?case by (simp add: evoluciona_refl)
next
  case (Suc n)
  then show ?case
    by (auto split: sum.splits intro: evoluciona_desde_paso)
qed

lemma pasos_seguidos:
  "pasos m az s = Inr (az1, s1) \<Longrightarrow> pasos n az1 s1 = Inr (az2, s2) \<Longrightarrow>
   pasos (m + n) az s = Inr (az2, s2)"
  by (induction m arbitrary: az s) (auto split: sum.splits)

lemma bucle_pasos:
  "invariante s \<Longrightarrow> tiempo_actual s + int n \<le> DURACION_SIMULACION s \<Longrightarrow>
   pasos n az s = Inr (az', s') \<Longrightarrow>
   bucle_simulacion az s = bucle_simulacion az' s'"
proof (induction n arbitrary: az s)
  case 0
  then show ?case by simp
next
  case (Suc n)
  from Suc.prems(3) obtain az1 s1 where
    p: "simular_paso az s = Inr (az1, s1)" and q: "pasos n az1 s1 = Inr (az', s')"
    by (auto split: sum.splits)
  from simular_paso_invariante[OF Suc.prems(1), of az] p
  have i1: "invariante s1" and t1: "tiempo_actual s1 = tiempo_actual s + 1" by simp_all
  from Suc.prems(1) i1 have "DURACION_SIMULACION s1 = DURACION_SIMULACION s"
    by (simp add: invariante_def config_ok_def)
  with Suc.prems(2) t1 have "tiempo_actual s1 + int n \<le> DURACION_SIMULACION s1" by simp
  from Suc.IH[OF i1 this q] have "bucle_simulacion az1 s1 = bucle_simulacion az' s'" .
  moreover from Suc.prems(2) have "\<not> condicion_finalizacion s"
    by (simp add: condicion_finalizacion_def)
  ultimately show ?case using p by (subst bucle_simulacion.simps) simp
qed

lemma alcanzable_simulador_un_box: "alcanzable simulador_un_box"
  by (rule alcanzable_inicial[of 1 1]) (simp add: simulador_un_box_def SimuladorAtencionPublico_def)

subsection \<open>No arrival at all\<close>

lemma paso_vacio:
  "simular_paso azar_sin_llegadas (simulador_un_box\<lparr>tiempo_actual := t\<rparr>) =
     Inr (azar_sin_llegadas, simulador_un_box\<lparr>tiempo_actual := t + 1\<rparr>)"
  by (simp add: eval_defs azar_sin_llegadas_def simulador_un_box_def)

lemma pasos_vacio:
  "pasos n azar_sin_llegadas (simulador_un_box\<lparr>tiempo_actual := t\<rparr>) =
     Inr (azar_sin_llegadas, simulador_un_box\<lparr>tiempo_actual := t + int n\<rparr>)"
  by (induction n arbitrary: t) (simp_all add: paso_vacio add.assoc)

lemma pasos_al_cierre:
  "pasos 14400 azar_sin_llegadas simulador_un_box = Inr (azar_sin_llegadas, simulador_al_cierre)"
  using pasos_vacio[of 14400 0]
  by (simp add: simulador_al_cierre_def simulador_un_box_def SimuladorAtencionPublico_def)

lemma alcanzable_simulador_al_cierre: "alcanzable simulador_al_cierre"
  using alcanzable_pasos[OF alcanzable_simulador_un_box pasos_al_cierre] .

subsection \<open>One arrival, served in 60 seconds\<close>

lemma pasos_estado_en_atencion:
  "pasos 1 azar_una_llegada simulador_un_box = Inr (azar_sin_llegadas, estado_en_atencion)"
  by (simp add: eval_defs azar_una_llegada_def azar_sin_llegadas_def simulador_un_box_def
      estado_en_atencion_def)

lemma pasos_en_atencion_atendido:
  "pasos 60 azar_sin_llegadas estado_en_atencion = Inr (azar_sin_llegadas, estado_atendido)"
  by (simp add: eval_defs azar_sin_llegadas_def estado_atendido_def estado_en_atencion_def
      numeral_eq_Suc)

lemma alcanzable_estado_en_atencion: "alcanzable estado_en_atencion"
  using alcanzable_pasos[OF alcanzable_simulador_un_box pasos_estado_en_atencion] .

lemma alcanzable_estado_atendido: "alcanzable estado_atendido"
  using alcanzable_pasos[OF alcanzable_estado_en_atencion pasos_en_atencion_atendido] .

subsection \<open>Two arrivals, the second one gives up\<close>

lemma pasos_estado_en_espera:
  "pasos 2 azar_dos_llegadas simulador_un_box = Inr (azar_servicio_largo, estado_en_espera)"
  by (simp add: eval_defs azar_dos_llegadas_def azar_servicio_largo_def simulador_un_box_def
      estado_en_espera_def numeral_eq_Suc)

lemma paso_en_espera:
  "2 \<le> t \<Longrightarrow> t \<le> 1800 \<Longrightarrow>
   simular_paso azar_servicio_largo (estado_en_espera\<lparr>tiempo_actual := t\<rparr>) =
     Inr (azar_servicio_largo, estado_en_espera\<lparr>tiempo_actual := t + 1\<rparr>)"
  by (simp add: eval_defs azar_servicio_largo_def estado_en_espera_def)

lemma pasos_en_espera:
  "2 \<le> t \<Longrightarrow> t + int n \<le> 1801 \<Longrightarrow>
   pasos n azar_servicio_largo (estado_en_espera\<lparr>tiempo_actual := t\<rparr>) =
     Inr (azar_servicio_largo, estado_en_espera\<lparr>tiempo_actual := t + int n\<rparr>)"
  by (induction n arbitrary: t) (simp_all add: paso_en_espera add.assoc)

lemma alcanzable_estado_en_espera: "alcanzable estado_en_espera"
  using alcanzable_pasos[OF alcanzable_simulador_un_box pasos_estado_en_espera] .

lemma alcanzable_estado_por_abandonar:
  "alcanzable (estado_en_espera\<lparr>tiempo_actual := 1801\<rparr>)"
proof -
  have "pasos 1799 azar_servicio_largo (estado_en_espera\<lparr>tiempo_actual := 2\<rparr>) =
     Inr (azar_servicio_largo, estado_en_espera\<lparr>tiempo_actual := 2 + int 1799\<rparr>)"
    by (rule pasos_en_espera) simp_all
  moreover have "estado_en_espera\<lparr>tiempo_actual := 2\<rparr> = estado_en_espera"
    by (simp add: estado_en_espera_def)
  ultimately show ?thesis
    using alcanzable_pasos[OF alcanzable_estado_en_espera] by simp
qed

lemma paso_estado_abandono:
  "simular_paso azar_servicio_largo (estado_en_espera\<lparr>tiempo_actual := 1801\<rparr>) =
     Inr (azar_servicio_largo, estado_abandono)"
  by (simp add: eval_defs azar_servicio_largo_def estado_en_espera_def estado_abandono_def)

lemma alcanzable_estado_abandono: "alcanzable estado_abandono"
  using alcanzable_paso[OF alcanzable_estado_por_abandonar paso_estado_abandono] .

lemma paso_tras_abandono:
  "pasos 1 azar_servicio_largo estado_abandono =
     Inr (azar_servicio_largo, estado_abandono\<lparr>tiempo_actual := 1803\<rparr>)"
  by (simp add: eval_defs azar_servicio_largo_def estado_abandono_def)

lemma paso_con_abandono:
  "1802 \<le> t \<Longrightarrow> t \<le> 4999 \<Longrightarrow>
   simular_paso azar_servicio_largo (estado_abandono\<lparr>tiempo_actual := t\<rparr>) =
     Inr (azar_servicio_largo, estado_abandono\<lparr>tiempo_actual := t + 1\<rparr>)"
  by (simp add: eval_defs azar_servicio_largo_def estado_abandono_def)

lemma pasos_con_abandono:
  "1802 \<le> t \<Longrightarrow> t + int n \<le> 5000 \<Longrightarrow>
   pasos n azar_servicio_largo (estado_abandono\<lparr>tiempo_actual := t\<rparr>) =
     Inr (azar_servicio_largo, estado_abandono\<lparr>tiempo_actual := t + int n\<rparr>)"
  by (induction n arbitrary: t) (simp_all add: paso_con_abandono add.assoc)

lemma paso_estado_tras_atencion:
  "pasos 1 azar_servicio_largo (estado_abandono\<lparr>tiempo_actual := 5000\<rparr>) =
     Inr (azar_servicio_largo, estado_tras_atencion)"
  by (simp add: eval_defs azar_servicio_largo_def estado_abandono_def estado_tras_atencion_def)

lemma paso_tras_atencion:
  "simular_paso azar_servicio_largo (estado_tras_atencion\<lparr>tiempo_actual := t\<rparr>) =
     Inr (azar_servicio_largo, estado_tras_atencion\<lparr>tiempo_actual := t + 1\<rparr>)"
  by (simp add: eval_defs azar_servicio_largo_def estado_tras_atencion_def)

lemma pasos_tras_atencion:
  "pasos n azar_servicio_largo (estado_tras_atencion\<lparr>tiempo_actual := t\<rparr>) =
     Inr (azar_servicio_largo, estado_tras_atencion\<lparr>tiempo_actual := t + int n\<rparr>)"
  by (induction n arbitrary: t) (simp_all add: paso_tras_atencion add.assoc)

lemma pasos_dos_llegadas:
  "pasos (2 + (1799 + (1 + (3198 + (1 + 9399))))) azar_dos_llegadas simulador_un_box =
     Inr (azar_servicio_largo, estado_tras_atencion\<lparr>tiempo_actual := 14400\<rparr>)"
proof -
  have a: "pasos 1799 azar_servicio_largo estado_en_espera =
     Inr (azar_servicio_largo, estado_en_espera\<lparr>tiempo_actual := 1801\<rparr>)"
    using pasos_en_espera[of 2 1799] by (simp add: estado_en_espera_def)
  have b: "pasos 1 azar_servicio_largo (estado_en_espera\<lparr>tiempo_actual := 1801\<rparr>) =
     Inr (azar_servicio_largo, estado_abandono)"
    by (simp add: paso_estado_abandono)
  have c: "pasos 3198 azar_servicio_largo estado_abandono =
     Inr (azar_servicio_largo, estado_abandono\<lparr>tiempo_actual := 5000\<rparr>)"
    using pasos_con_abandono[of 1802 3198] by (simp add: estado_abandono_def)
  have d: "pasos 9399 azar_servicio_largo estado_tras_atencion =
     Inr (azar_servicio_largo, estado_tras_atencion\<lparr>tiempo_actual := 14400\<rparr>)"
    using pasos_tras_atencion[of 9399 5001] by (simp add: estado_tras_atencion_def)
  note pasos_seguidos[OF paso_estado_tras_atencion d]
  note pasos_seguidos[OF c this]
  note pasos_seguidos[OF b this]
  note pasos_seguidos[OF a this]
  from pasos_seguidos[OF pasos_estado_en_espera this] show ?thesis .
qed

lemma bucle_dos_llegadas:
  "bucle_simulacion azar_dos_llegadas simulador_un_box =
     Some (Inr (azar_servicio_largo, estado_tras_atencion\<lparr>tiempo_actual := 14400\<rparr>))"
proof -
  have "bucle_simulacion azar_dos_llegadas simulador_un_box =
     bucle_simulacion azar_servicio_largo (estado_tras_atencion\<lparr>tiempo_actual := 14400\<rparr>)"
    by (rule bucle_pasos[OF alcanzable_invariante[OF alcanzable_simulador_un_box] _
          pasos_dos_llegadas])
       (simp add: simulador_un_box_def SimuladorAtencionPublico_def)
  also have "\<dots> = Some (Inr (azar_servicio_largo, estado_tras_atencion\<lparr>tiempo_actual := 14400\<rparr>))"
    by (subst bucle_simulacion.simps)
       (simp add: condicion_finalizacion_def estado_tras_atencion_def)
  finally show ?thesis .
qed

lemma ejecutar_dos_llegadas:
  "ejecutar_simulacion_rapida azar_dos_llegadas simulador_un_box =
     Some (Inr (azar_servicio_largo, estado_final_dos_llegadas))"
  by (simp add: ejecutar_simulacion_rapida_def bucle_dos_llegadas estado_final_dos_llegadas_def)

lemma mismas_decisiones_dos_llegadas:
  "mismas_decisiones (PROB_INGRESO simulador_un_box) azar_dos_llegadas azar_otras_dos_llegadas"
  by (simp add: mismas_decisiones_def azar_dos_llegadas_def azar_otras_dos_llegadas_def
      simulador_un_box_def SimuladorAtencionPublico_def py_int_def smap_sconst)

lemma estadisticas_dos_llegadas:
  "estadisticas estado_final_dos_llegadas =
     \<lparr>est_clientes_ingresados = 2, est_clientes_atendidos = 1,
      est_clientes_abandonaron = 1, tiempo_min_atencion = Entero 5000,
      tiempo_max_atencion = 5000, tiempo_min_espera = Entero 0, tiempo_max_espera = 0,
      costo_total = 11000\<rparr>"
  by (simp add: estado_final_dos_llegadas_def estado_tras_atencion_def calcular_costos_def)

section \<open>The claims\<close>

text \<open>
  C1, conservation of customers: in every reachable state the queue length, plus the
  number of occupied boxes, plus the served customers, plus the abandoned customers is the
  number of customers that arrived; the same holds of the counters in \<open>estadisticas\<close>.
\<close>

theorem conservacion_de_clientes:
  assumes "alcanzable s"
  shows "length (cola s) + length (filter ocupado (boxes s)) +
           length (clientes_atendidos s) + length (clientes_abandonaron s) =
         length (clientes_ingresados s) \<and>
         int (length (cola s)) + int (length (filter ocupado (boxes s))) +
           est_clientes_atendidos (estadisticas s) +
           est_clientes_abandonaron (estadisticas s) =
         est_clientes_ingresados (estadisticas s)"
  using alcanzable_invariante[OF assms]
  by (auto simp: invariante_def conservacion_def memoria_ok_def atendidos_ok_def
      abandonaron_ok_def)

theorem conservacion_de_clientes_witness:
  "alcanzable estado_abandono \<and>
   length (cola estado_abandono) = 0 \<and>
   length (filter ocupado (boxes estado_abandono)) = 1 \<and>
   length (clientes_atendidos estado_abandono) = 0 \<and>
   length (clientes_abandonaron estado_abandono) = 1 \<and>
   length (clientes_ingresados estado_abandono) = 2 \<and>
   length (cola estado_abandono) + length (filter ocupado (boxes estado_abandono)) +
     length (clientes_atendidos estado_abandono) +
     length (clientes_abandonaron estado_abandono) =
   length (clientes_ingresados estado_abandono)"
  using conservacion_de_clientes[OF alcanzable_estado_abandono] alcanzable_estado_abandono
  by (simp add: estado_abandono_def)

text \<open>
  C2, exclusive terminal disposition: in a reachable state no customer object has both
  its service start set and its abandonment flag raised. From a reachable state on, a
  customer who has abandoned stays abandoned, never gets a service start, and is neither
  in the queue nor in an occupied box; a customer whose service has started keeps a
  service start, is never flagged as abandoned, and is neither in the queue nor in the
  abandoned record.
\<close>

theorem disposicion_exclusiva:
  assumes "alcanzable s"
  shows "(\<forall>c\<in>set (memoria s). \<not> (tiempo_inicio_atencion c \<noteq> None \<and> abandono c)) \<and>
    (\<forall>s' r. evoluciona s s' \<longrightarrow> r < length (memoria s) \<longrightarrow>
       (abandono (memoria s ! r) \<longrightarrow>
          abandono (memoria s' ! r) \<and> tiempo_inicio_atencion (memoria s' ! r) = None \<and>
          r \<notin> set (cola s') \<and>
          (\<forall>b\<in>set (boxes s'). ocupado b \<longrightarrow> cliente_actual b \<noteq> Some r)) \<and>
       (tiempo_inicio_atencion (memoria s ! r) \<noteq> None \<longrightarrow>
          tiempo_inicio_atencion (memoria s' ! r) \<noteq> None \<and> \<not> abandono (memoria s' ! r) \<and>
          r \<notin> set (cola s') \<and> r \<notin> set (clientes_abandonaron s')))"
proof (intro conjI allI impI ballI)
  fix c assume "c \<in> set (memoria s)"
  then obtain r where "r < length (memoria s)" "c = memoria s ! r"
    by (auto simp: in_set_conv_nth)
  with alcanzable_invariante[OF assms]
  show "\<not> (tiempo_inicio_atencion c \<noteq> None \<and> abandono c)"
    by (simp add: invariante_def memoria_ok_def)
next
  fix s' r
  assume e: "evoluciona s s'" and r: "r < length (memoria s)"
  from evoluciona_crece[OF e assms] have c: "crece s s'" .
  from evoluciona_alcanzable[OF e assms] have i: "invariante s'"
    by (rule alcanzable_invariante)
  from c r have r': "r < length (memoria s')" by (simp add: crece_def)
  with i have nb: "\<not> (tiempo_inicio_atencion (memoria s' ! r) \<noteq> None \<and> abandono (memoria s' ! r))"
    by (simp add: invariante_def memoria_ok_def)
  {
    assume "abandono (memoria s ! r)"
    with c r have a: "abandono (memoria s' ! r)" by (simp add: crece_def)
    then show "abandono (memoria s' ! r)" .
    from a nb show "tiempo_inicio_atencion (memoria s' ! r) = None" by simp
    from a i show "r \<notin> set (cola s')" by (auto simp: invariante_def cola_ok_def)
    fix b assume "b \<in> set (boxes s')" "ocupado b"
    then obtain j where "j < length (boxes s')" "b = boxes s' ! j"
      by (auto simp: in_set_conv_nth)
    with i \<open>ocupado b\<close> a show "cliente_actual b \<noteq> Some r"
      by (auto simp: invariante_def boxes_ok_def box_ok_def)
  }
  {
    assume "tiempo_inicio_atencion (memoria s ! r) \<noteq> None"
    with c r have a: "tiempo_inicio_atencion (memoria s' ! r) \<noteq> None" by (simp add: crece_def)
    then show "tiempo_inicio_atencion (memoria s' ! r) \<noteq> None" .
    from a nb show na: "\<not> abandono (memoria s' ! r)" by simp
    from a i show "r \<notin> set (cola s')" by (auto simp: invariante_def cola_ok_def)
    from na i show "r \<notin> set (clientes_abandonaron s')"
      by (auto simp: invariante_def abandonaron_ok_def)
  }
qed

theorem disposicion_exclusiva_witness:
  "alcanzable estado_abandono \<and>
   evoluciona estado_abandono (estado_abandono\<lparr>tiempo_actual := 1803\<rparr>) \<and>
   abandono (memoria estado_abandono ! 1) \<and>
   tiempo_inicio_atencion (memoria estado_abandono ! 0) = Some 0 \<and>
   abandono (memoria (estado_abandono\<lparr>tiempo_actual := 1803\<rparr>) ! 1) \<and>
   tiempo_inicio_atencion (memoria (estado_abandono\<lparr>tiempo_actual := 1803\<rparr>) ! 1) = None \<and>
   \<not> abandono (memoria (estado_abandono\<lparr>tiempo_actual := 1803\<rparr>) ! 0)"
proof -
  note a = alcanzable_estado_abandono
  note e = evoluciona_pasos[OF paso_tras_abandono]
  have m: "length (memoria estado_abandono) = 2" "abandono (memoria estado_abandono ! 1)"
    "tiempo_inicio_atencion (memoria estado_abandono ! 0) = Some 0"
    by (simp_all add: estado_abandono_def)
  from disposicion_exclusiva[OF a] e m
  have "abandono (memoria (estado_abandono\<lparr>tiempo_actual := 1803\<rparr>) ! 1) \<and>
     tiempo_inicio_atencion (memoria (estado_abandono\<lparr>tiempo_actual := 1803\<rparr>) ! 1) = None"
    "\<not> abandono (memoria (estado_abandono\<lparr>tiempo_actual := 1803\<rparr>) ! 0)"
    by (metis One_nat_def lessI numeral_2_eq_2, metis option.distinct(1) pos2)
  with a e m show ?thesis by simp
qed

text \<open>
  C3, the termination predicate: \<open>condicion_finalizacion\<close> holds exactly when the
  current tick has reached \<open>DURACION_SIMULACION\<close>, the queue is empty and no box is
  occupied; so it is false whenever a box is occupied or the queue is not empty, also
  past the horizon.
\<close>

theorem condicion_finalizacion_iff:
  "(condicion_finalizacion s \<longleftrightarrow>
      DURACION_SIMULACION s \<le> tiempo_actual s \<and> cola s = [] \<and>
      (\<forall>b\<in>set (boxes s). \<not> ocupado b)) \<and>
   ((\<exists>b\<in>set (boxes s). ocupado b) \<or> cola s \<noteq> [] \<longrightarrow> \<not> condicion_finalizacion s)"
  by (auto simp: condicion_finalizacion_def list_ex_iff)

theorem condicion_finalizacion_iff_witness:
  "condicion_finalizacion simulador_al_cierre \<and>
   \<not> condicion_finalizacion estado_atendido \<and>
   \<not> condicion_finalizacion (estado_en_atencion\<lparr>tiempo_actual := 20000\<rparr>) \<and>
   \<not> condicion_finalizacion (estado_en_espera\<lparr>tiempo_actual := 20000\<rparr>)"
  using condicion_finalizacion_iff[of simulador_al_cierre]
    condicion_finalizacion_iff[of estado_atendido]
    condicion_finalizacion_iff[of "estado_en_atencion\<lparr>tiempo_actual := 20000\<rparr>"]
    condicion_finalizacion_iff[of "estado_en_espera\<lparr>tiempo_actual := 20000\<rparr>"]
  by (simp add: estado_atendido_def estado_en_atencion_def estado_en_espera_def
      simulador_al_cierre_def simulador_un_box_def SimuladorAtencionPublico_def nuevo_box_def)

text \<open>
  C4, the minimum service floor: \<open>generar_tiempo_atencion\<close> returns at least 60 for
  every draw, and every customer in the served record of a reachable state has its
  service start and end set, the start not after the end, and at least 60 seconds between
  them.
\<close>

theorem piso_minimo_de_atencion:
  "60 \<le> fst (generar_tiempo_atencion az) \<and>
   (alcanzable s \<longrightarrow>
      (\<forall>r\<in>set (clientes_atendidos s).
         \<exists>a b. tiempo_inicio_atencion (memoria s ! r) = Some a \<and>
               tiempo_fin_atencion (memoria s ! r) = Some b \<and> a \<le> b \<and> 60 \<le> b - a))"
proof (intro conjI impI ballI)
  show "60 \<le> fst (generar_tiempo_atencion az)" by (rule generar_tiempo_atencion_minimo)
next
  fix r assume "alcanzable s" "r \<in> set (clientes_atendidos s)"
  with alcanzable_invariante[of s] obtain a b where
    "tiempo_inicio_atencion (memoria s ! r) = Some a"
    "tiempo_fin_atencion (memoria s ! r) = Some b" "a + 60 \<le> b"
    by (auto simp: invariante_def atendidos_ok_def)
  then show "\<exists>a b. tiempo_inicio_atencion (memoria s ! r) = Some a \<and>
               tiempo_fin_atencion (memoria s ! r) = Some b \<and> a \<le> b \<and> 60 \<le> b - a"
    by simp
qed

theorem piso_minimo_de_atencion_witness:
  "fst (generar_tiempo_atencion azar_una_llegada) = 60 \<and>
   alcanzable estado_atendido \<and> clientes_atendidos estado_atendido = [0] \<and>
   tiempo_inicio_atencion (memoria estado_atendido ! 0) = Some 0 \<and>
   tiempo_fin_atencion (memoria estado_atendido ! 0) = Some 60"
  using piso_minimo_de_atencion[of azar_una_llegada estado_atendido] alcanzable_estado_atendido
  by (simp add: estado_atendido_def azar_una_llegada_def generar_tiempo_atencion_def py_int_def)

text \<open>
  C5, the abandonment threshold: in a reachable state \<open>TIEMPO_MAX_ESPERA\<close> is 1800,
  and every customer in the abandoned record carries the flag, is not in the queue, and
  has an abandonment tick that is earlier than the current tick and at least
  \<open>TIEMPO_MAX_ESPERA\<close> after its arrival. A customer that a tick adds to the abandoned
  record carries that tick as its abandonment tick and is out of the queue when the tick
  ends.
\<close>

theorem umbral_de_abandono:
  assumes "alcanzable s"
  shows "TIEMPO_MAX_ESPERA s = 1800 \<and>
    (\<forall>r\<in>set (clientes_abandonaron s).
       abandono (memoria s ! r) \<and> r \<notin> set (cola s) \<and>
       (\<exists>ta. tiempo_abandono (memoria s ! r) = Some ta \<and>
             TIEMPO_MAX_ESPERA s \<le> ta - tiempo_ingreso (memoria s ! r) \<and>
             ta < tiempo_actual s)) \<and>
    (\<forall>az az' s'. simular_paso az s = Inr (az', s') \<longrightarrow>
       (\<forall>r\<in>set (clientes_abandonaron s'). r \<notin> set (clientes_abandonaron s) \<longrightarrow>
          r \<notin> set (cola s') \<and> tiempo_abandono (memoria s' ! r) = Some (tiempo_actual s)))"
proof (intro conjI ballI allI impI)
  note i = alcanzable_invariante[OF assms]
  from i show "TIEMPO_MAX_ESPERA s = 1800" by (simp add: invariante_def config_ok_def)
  {
    fix r assume r: "r \<in> set (clientes_abandonaron s)"
    with i show a: "abandono (memoria s ! r)" by (simp add: invariante_def abandonaron_ok_def)
    with i show "r \<notin> set (cola s)" by (auto simp: invariante_def cola_ok_def)
    from i r obtain ta where "tiempo_abandono (memoria s ! r) = Some ta"
      "TIEMPO_MAX_ESPERA s \<le> ta - tiempo_ingreso (memoria s ! r)"
      by (auto simp: invariante_def abandonaron_ok_def)
    moreover from alcanzable_abandonos_pasados[OF assms] r obtain tb where
      "tiempo_abandono (memoria s ! r) = Some tb" "tb < tiempo_actual s"
      by (auto simp: abandonos_pasados_def)
    ultimately show "\<exists>ta. tiempo_abandono (memoria s ! r) = Some ta \<and>
               TIEMPO_MAX_ESPERA s \<le> ta - tiempo_ingreso (memoria s ! r) \<and>
               ta < tiempo_actual s"
      by auto
  }
  fix az az' s' r
  assume "simular_paso az s = Inr (az', s')" "r \<in> set (clientes_abandonaron s')"
    "r \<notin> set (clientes_abandonaron s)"
  from simular_paso_abandonos[OF i this]
  show "r \<notin> set (cola s')" "tiempo_abandono (memoria s' ! r) = Some (tiempo_actual s)"
    by simp_all
qed

theorem umbral_de_abandono_witness:
  "alcanzable (estado_en_espera\<lparr>tiempo_actual := 1801\<rparr>) \<and>
   simular_paso azar_servicio_largo (estado_en_espera\<lparr>tiempo_actual := 1801\<rparr>) =
     Inr (azar_servicio_largo, estado_abandono) \<and>
   clientes_abandonaron (estado_en_espera\<lparr>tiempo_actual := 1801\<rparr>) = [] \<and>
   clientes_abandonaron estado_abandono = [1] \<and> cola estado_abandono = [] \<and>
   tiempo_ingreso (memoria estado_abandono ! 1) = 1 \<and>
   tiempo_abandono (memoria estado_abandono ! 1) = Some 1801"
  using umbral_de_abandono[OF alcanzable_estado_por_abandonar] alcanzable_estado_por_abandonar
    paso_estado_abandono
  by (simp add: estado_abandono_def estado_en_espera_def)

text \<open>
  C6, the final cost: \<open>calcular_costos\<close> sets \<open>costo_total\<close> to
  \<open>num_boxes * COSTO_BOX\<close> plus the number of abandoned customers times
  \<open>PERDIDA_CLIENTE\<close>; in a reachable state the two constants are 1000 and 10000, and
  with no abandoned customer the total is \<open>num_boxes * 1000\<close>.
\<close>

theorem formula_de_costo:
  "costo_total (estadisticas (calcular_costos s)) =
     num_boxes s * COSTO_BOX s + int (length (clientes_abandonaron s)) * PERDIDA_CLIENTE s \<and>
   (alcanzable s \<longrightarrow>
      costo_total (estadisticas (calcular_costos s)) =
        num_boxes s * 1000 + int (length (clientes_abandonaron s)) * 10000 \<and>
      (clientes_abandonaron s = [] \<longrightarrow>
         costo_total (estadisticas (calcular_costos s)) = num_boxes s * 1000))"
  using alcanzable_invariante[of s]
  by (auto simp: calcular_costos_def Let_def invariante_def config_ok_def)

theorem formula_de_costo_witness:
  "alcanzable simulador_al_cierre \<and> clientes_abandonaron simulador_al_cierre = [] \<and>
   costo_total (estadisticas (calcular_costos simulador_al_cierre)) = 1000 \<and>
   alcanzable estado_abandono \<and> clientes_abandonaron estado_abandono = [1] \<and>
   costo_total (estadisticas (calcular_costos estado_abandono)) = 11000"
  using formula_de_costo[of simulador_al_cierre] formula_de_costo[of estado_abandono]
    alcanzable_simulador_al_cierre alcanzable_estado_abandono
  by (simp add: estado_abandono_def simulador_al_cierre_def simulador_un_box_def
      SimuladorAtencionPublico_def)

text \<open>
  C7, the arrival cutoff and the bookkeeping of an arrival: a tick run from a reachable
  state at or past the horizon creates no customer (the store, the ingested record and
  both counters are unchanged). Before the horizon, when the draw is below
  \<open>PROB_INGRESO\<close>, \<open>procesar_llegadas\<close> creates one customer whose id is
  \<open>contador_clientes\<close>, which is the number of customers created so far, and whose
  arrival tick is the current tick, and appends it to the queue and to the ingested
  record.
\<close>

theorem corte_de_llegadas:
  assumes "alcanzable s"
  shows "(DURACION_SIMULACION s \<le> tiempo_actual s \<longrightarrow>
       (\<forall>az az' s'. simular_paso az s = Inr (az', s') \<longrightarrow>
          length (memoria s') = length (memoria s) \<and>
          clientes_ingresados s' = clientes_ingresados s \<and>
          contador_clientes s' = contador_clientes s \<and>
          est_clientes_ingresados (estadisticas s') =
            est_clientes_ingresados (estadisticas s))) \<and>
    (tiempo_actual s < DURACION_SIMULACION s \<longrightarrow> shd (random_random az) < PROB_INGRESO s \<longrightarrow>
       (let s' = snd (procesar_llegadas az s); r = length (memoria s)
        in cola s' = cola s @ [r] \<and> clientes_ingresados s' = clientes_ingresados s @ [r] \<and>
           memoria s' = memoria s @ [nuevo_cliente (contador_clientes s) (tiempo_actual s)] \<and>
           cliente_id (memoria s' ! r) = int (length (clientes_ingresados s)) \<and>
           tiempo_ingreso (memoria s' ! r) = tiempo_actual s \<and>
           contador_clientes s' = contador_clientes s + 1))"
proof (intro conjI allI impI)
  note i = alcanzable_invariante[OF assms]
  fix az az' s'
  assume d: "DURACION_SIMULACION s \<le> tiempo_actual s" and p: "simular_paso az s = Inr (az', s')"
  from simular_paso_marco(2)[OF i p d] show l: "length (memoria s') = length (memoria s)" .
  from alcanzable_paso[OF assms p] have "invariante s'" by (rule alcanzable_invariante)
  with i l show "clientes_ingresados s' = clientes_ingresados s"
    "contador_clientes s' = contador_clientes s"
    "est_clientes_ingresados (estadisticas s') = est_clientes_ingresados (estadisticas s)"
    by (simp_all add: invariante_def memoria_ok_def)
next
  assume "tiempo_actual s < DURACION_SIMULACION s" "shd (random_random az) < PROB_INGRESO s"
  with alcanzable_invariante[OF assms]
  show "let s' = snd (procesar_llegadas az s); r = length (memoria s)
        in cola s' = cola s @ [r] \<and> clientes_ingresados s' = clientes_ingresados s @ [r] \<and>
           memoria s' = memoria s @ [nuevo_cliente (contador_clientes s) (tiempo_actual s)] \<and>
           cliente_id (memoria s' ! r) = int (length (clientes_ingresados s)) \<and>
           tiempo_ingreso (memoria s' ! r) = tiempo_actual s \<and>
           contador_clientes s' = contador_clientes s + 1"
    by (simp add: procesar_llegadas_def Let_def invariante_def memoria_ok_def nuevo_cliente_def)
qed

theorem corte_de_llegadas_witness:
  "alcanzable simulador_al_cierre \<and>
   DURACION_SIMULACION simulador_al_cierre \<le> tiempo_actual simulador_al_cierre \<and>
   shd (random_random azar_una_llegada) < PROB_INGRESO simulador_al_cierre \<and>
   simular_paso azar_una_llegada simulador_al_cierre =
     Inr (azar_una_llegada, simulador_al_cierre\<lparr>tiempo_actual := 14401\<rparr>) \<and>
   clientes_ingresados (simulador_al_cierre\<lparr>tiempo_actual := 14401\<rparr>) = [] \<and>
   alcanzable estado_en_espera \<and>
   tiempo_actual estado_en_espera < DURACION_SIMULACION estado_en_espera \<and>
   shd (random_random azar_una_llegada) < PROB_INGRESO estado_en_espera \<and>
   cola (snd (procesar_llegadas azar_una_llegada estado_en_espera)) = [1, 2] \<and>
   clientes_ingresados (snd (procesar_llegadas azar_una_llegada estado_en_espera)) = [0, 1, 2] \<and>
   cliente_id (memoria (snd (procesar_llegadas azar_una_llegada estado_en_espera)) ! 2) = 2 \<and>
   tiempo_ingreso (memoria (snd (procesar_llegadas azar_una_llegada estado_en_espera)) ! 2) = 2"
proof -
  have p: "simular_paso azar_una_llegada simulador_al_cierre =
     Inr (azar_una_llegada, simulador_al_cierre\<lparr>tiempo_actual := 14401\<rparr>)"
    by (simp add: eval_defs azar_una_llegada_def simulador_al_cierre_def simulador_un_box_def)
  have d: "DURACION_SIMULACION simulador_al_cierre \<le> tiempo_actual simulador_al_cierre"
    "shd (random_random azar_una_llegada) < PROB_INGRESO simulador_al_cierre"
    "tiempo_actual estado_en_espera < DURACION_SIMULACION estado_en_espera"
    "shd (random_random azar_una_llegada) < PROB_INGRESO estado_en_espera"
    by (simp_all add: simulador_al_cierre_def simulador_un_box_def SimuladorAtencionPublico_def
        azar_una_llegada_def estado_en_espera_def)
  from corte_de_llegadas[OF alcanzable_simulador_al_cierre] d(1) p
  have 1: "clientes_ingresados (simulador_al_cierre\<lparr>tiempo_actual := 14401\<rparr>) =
      clientes_ingresados simulador_al_cierre"
    by blast
  from corte_de_llegadas[OF alcanzable_estado_en_espera, of azar_una_llegada] d(3,4)
  have 2: "cola (snd (procesar_llegadas azar_una_llegada estado_en_espera)) =
        cola estado_en_espera @ [length (memoria estado_en_espera)]"
    "clientes_ingresados (snd (procesar_llegadas azar_una_llegada estado_en_espera)) =
        clientes_ingresados estado_en_espera @ [length (memoria estado_en_espera)]"
    "memoria (snd (procesar_llegadas azar_una_llegada estado_en_espera)) =
        memoria estado_en_espera @
          [nuevo_cliente (contador_clientes estado_en_espera) (tiempo_actual estado_en_espera)]"
    by (simp_all add: Let_def)
  have 3: "clientes_ingresados simulador_al_cierre = []"
    by (simp add: simulador_al_cierre_def simulador_un_box_def SimuladorAtencionPublico_def)
  from 1 3 have 4: "clientes_ingresados (simulador_al_cierre\<lparr>tiempo_actual := 14401\<rparr>) = []"
    by simp
  have 5: "cola (snd (procesar_llegadas azar_una_llegada estado_en_espera)) = [1, 2]"
    "clientes_ingresados (snd (procesar_llegadas azar_una_llegada estado_en_espera)) = [0, 1, 2]"
    "cliente_id (memoria (snd (procesar_llegadas azar_una_llegada estado_en_espera)) ! 2) = 2"
    "tiempo_ingreso (memoria (snd (procesar_llegadas azar_una_llegada estado_en_espera)) ! 2) = 2"
    unfolding 2 by (simp_all add: estado_en_espera_def nuevo_cliente_def)
  from alcanzable_simulador_al_cierre alcanzable_estado_en_espera p d 4 5
  show ?thesis by blast
qed

text \<open>
  C8, construction: the claim is that the constructor fails exactly when the number of
  boxes is outside 1..10 and, besides, for every negative or zero rate or duration
  parameter. The constructor checks the number of boxes only: the animation rate
  \<open>velocidad_animacion\<close> is stored as given, also when negative, and the durations and
  rates of the simulation are constants that the constructor sets itself.
\<close>

theorem construccion_velocidad_negativa:
  "\<not> isl (SimuladorAtencionPublico 1 (- 1)) \<and>
   velocidad_animacion (projr (SimuladorAtencionPublico 1 (- 1))) = - 1"
  by (simp add: SimuladorAtencionPublico_def)

text \<open>
  C8 as amended: construction raises \<open>ValueError\<close>, and returns no engine, exactly
  when the number of boxes is outside 1..10, whatever the animation rate. No other
  parameter is validated: the animation rate is stored as given, and every rate and
  duration setting of an engine that is returned is the constant of the constructor: the
  horizon, the arrival probability, the waiting limit, the mean and the deviation of the
  service time, and the two costs.
\<close>

theorem validacion_de_construccion:
  "(SimuladorAtencionPublico n v = Inl ValueError \<longleftrightarrow> n < 1 \<or> 10 < n) \<and>
   ((\<exists>s. SimuladorAtencionPublico n v = Inr s) \<longleftrightarrow> 1 \<le> n \<and> n \<le> 10) \<and>
   (\<forall>s. SimuladorAtencionPublico n v = Inr s \<longrightarrow>
      num_boxes s = n \<and> length (boxes s) = nat n \<and> velocidad_animacion s = v \<and>
      DURACION_SIMULACION s = 14400 \<and>
      PROB_INGRESO s = 2001599834386887 / 288230376151711744 \<and>
      TIEMPO_MAX_ESPERA s = 1800 \<and> MEDIA_ATENCION s = 600 \<and> DESVIO_ATENCION s = 300 \<and>
      COSTO_BOX s = 1000 \<and> PERDIDA_CLIENTE s = 10000)"
  by (auto simp: SimuladorAtencionPublico_def)

theorem validacion_de_construccion_witness:
  "SimuladorAtencionPublico 0 1 = Inl ValueError \<and>
   SimuladorAtencionPublico 11 1 = Inl ValueError \<and>
   SimuladorAtencionPublico 1 1 = Inr simulador_un_box \<and>
   DURACION_SIMULACION simulador_un_box = 14400 \<and>
   PROB_INGRESO simulador_un_box = 2001599834386887 / 288230376151711744 \<and>
   TIEMPO_MAX_ESPERA simulador_un_box = 1800 \<and>
   MEDIA_ATENCION simulador_un_box = 600 \<and> DESVIO_ATENCION simulador_un_box = 300 \<and>
   velocidad_animacion simulador_un_box = 1 \<and>
   velocidad_animacion (projr (SimuladorAtencionPublico 1 (- 1))) = - 1 \<and>
   PROB_INGRESO (projr (SimuladorAtencionPublico 1 (- 1))) =
     2001599834386887 / 288230376151711744"
proof -
  have n: "SimuladorAtencionPublico 1 (- 1) = Inr (projr (SimuladorAtencionPublico 1 (- 1)))"
    by (simp add: SimuladorAtencionPublico_def)
  from validacion_de_construccion[of 1 "- 1"] n
  have v: "velocidad_animacion (projr (SimuladorAtencionPublico 1 (- 1))) = - 1 \<and>
    PROB_INGRESO (projr (SimuladorAtencionPublico 1 (- 1))) =
      2001599834386887 / 288230376151711744"
    by blast
  have c: "SimuladorAtencionPublico 1 1 = Inr simulador_un_box"
    by (simp add: simulador_un_box_def SimuladorAtencionPublico_def)
  from validacion_de_construccion[of 0 1] validacion_de_construccion[of 11 1]
  have e: "SimuladorAtencionPublico 0 1 = Inl ValueError"
    "SimuladorAtencionPublico 11 1 = Inl ValueError"
    by simp_all
  from validacion_de_construccion[of 1 1] c
  have "DURACION_SIMULACION simulador_un_box = 14400 \<and>
    PROB_INGRESO simulador_un_box = 2001599834386887 / 288230376151711744 \<and>
    TIEMPO_MAX_ESPERA simulador_un_box = 1800 \<and>
    MEDIA_ATENCION simulador_un_box = 600 \<and> DESVIO_ATENCION simulador_un_box = 300 \<and>
    velocidad_animacion simulador_un_box = 1"
    by blast
  with c e v show ?thesis by blast
qed

text \<open>
  C9, determinism: the fast run of a reachable engine (in particular of a freshly
  constructed one) returns, and two runs from the same state whose random generators
  lead to the same decisions (the same arrival decisions and the same service durations)
  return the same final state, statistics and total cost included.
\<close>

theorem determinismo:
  assumes "alcanzable s" "mismas_decisiones (PROB_INGRESO s) a b"
  shows "\<exists>a' b' s'. ejecutar_simulacion_rapida a s = Some (Inr (a', s')) \<and>
           ejecutar_simulacion_rapida b s = Some (Inr (b', s'))"
proof -
  note i = alcanzable_invariante[OF assms(1)]
  from bucle_simulacion_termina[OF i, of a] obtain a' s' where
    r: "bucle_simulacion a s = Some (Inr (a', s'))" by blast
  from bucle_simulacion_mismas[OF r i assms(2)] obtain b' where
    "bucle_simulacion b s = Some (Inr (b', s'))" by blast
  with r show ?thesis by (simp add: ejecutar_simulacion_rapida_def)
qed

theorem determinismo_witness:
  "alcanzable simulador_un_box \<and>
   mismas_decisiones (PROB_INGRESO simulador_un_box) azar_dos_llegadas azar_otras_dos_llegadas \<and>
   random_random azar_dos_llegadas \<noteq> random_random azar_otras_dos_llegadas \<and>
   np_random_normal azar_dos_llegadas \<noteq> np_random_normal azar_otras_dos_llegadas \<and>
   ejecutar_simulacion_rapida azar_dos_llegadas simulador_un_box =
     Some (Inr (azar_servicio_largo, estado_final_dos_llegadas)) \<and>
   (\<exists>b'. ejecutar_simulacion_rapida azar_otras_dos_llegadas simulador_un_box =
     Some (Inr (b', estado_final_dos_llegadas))) \<and>
   estadisticas estado_final_dos_llegadas =
     \<lparr>est_clientes_ingresados = 2, est_clientes_atendidos = 1,
      est_clientes_abandonaron = 1, tiempo_min_atencion = Entero 5000,
      tiempo_max_atencion = 5000, tiempo_min_espera = Entero 0, tiempo_max_espera = 0,
      costo_total = 11000\<rparr>"
proof -
  have d: "random_random azar_dos_llegadas \<noteq> random_random azar_otras_dos_llegadas"
    "np_random_normal azar_dos_llegadas \<noteq> np_random_normal azar_otras_dos_llegadas"
    by (auto simp: azar_dos_llegadas_def azar_otras_dos_llegadas_def
        dest: arg_cong[where f = shd])
  from determinismo[OF alcanzable_simulador_un_box mismas_decisiones_dos_llegadas]
    ejecutar_dos_llegadas
  have "\<exists>b'. ejecutar_simulacion_rapida azar_otras_dos_llegadas simulador_un_box =
     Some (Inr (b', estado_final_dos_llegadas))"
    by auto
  with alcanzable_simulador_un_box mismas_decisiones_dos_llegadas d ejecutar_dos_llegadas
    estadisticas_dos_llegadas
  show ?thesis by blast
qed

text \<open>
  C10, termination: from every reachable state and for every state of the random
  generators, the loop of \<open>ejecutar_simulacion_rapida\<close> ends after finitely many calls
  of \<open>simular_paso\<close>, without an exception, in a state where
  \<open>condicion_finalizacion\<close> holds. On the way, every queued customer arrived before the
  horizon and has waited at most \<open>TIEMPO_MAX_ESPERA\<close>, and every occupied box has a
  scheduled end that is not in the past.
\<close>

theorem la_simulacion_termina:
  assumes "alcanzable s"
  shows "(\<exists>az' s'. bucle_simulacion az s = Some (Inr (az', s')) \<and>
            condicion_finalizacion s' \<and> evoluciona s s' \<and>
            ejecutar_simulacion_rapida az s = Some (Inr (az', calcular_costos s'))) \<and>
         (\<forall>r\<in>set (cola s).
            tiempo_ingreso (memoria s ! r) < DURACION_SIMULACION s \<and>
            tiempo_actual s - tiempo_ingreso (memoria s ! r) \<le> TIEMPO_MAX_ESPERA s) \<and>
         (\<forall>b\<in>set (boxes s). ocupado b \<longrightarrow>
            (\<exists>f. box_tiempo_fin_atencion b = Some f \<and> tiempo_actual s \<le> f))"
proof (intro conjI ballI impI)
  note i = alcanzable_invariante[OF assms]
  from bucle_simulacion_termina[OF i, of az] obtain az' s' where
    "bucle_simulacion az s = Some (Inr (az', s'))" "condicion_finalizacion s'"
    "evoluciona s s'" by blast
  then show "\<exists>az' s'. bucle_simulacion az s = Some (Inr (az', s')) \<and>
            condicion_finalizacion s' \<and> evoluciona s s' \<and>
            ejecutar_simulacion_rapida az s = Some (Inr (az', calcular_costos s'))"
    by (auto simp: ejecutar_simulacion_rapida_def)
  {
    fix r assume "r \<in> set (cola s)"
    with i show "tiempo_ingreso (memoria s ! r) < DURACION_SIMULACION s"
      "tiempo_actual s - tiempo_ingreso (memoria s ! r) \<le> TIEMPO_MAX_ESPERA s"
      by (auto simp: invariante_def cola_ok_def memoria_ok_def)
  }
  fix b assume "b \<in> set (boxes s)" "ocupado b"
  then obtain j where "j < length (boxes s)" "b = boxes s ! j"
    by (auto simp: in_set_conv_nth)
  with i \<open>ocupado b\<close> show "\<exists>f. box_tiempo_fin_atencion b = Some f \<and> tiempo_actual s \<le> f"
    by (auto simp: invariante_def boxes_ok_def box_ok_def)
qed

theorem la_simulacion_termina_witness:
  "alcanzable estado_en_espera \<and> cola estado_en_espera = [1] \<and>
   tiempo_actual estado_en_espera - tiempo_ingreso (memoria estado_en_espera ! 1) = 1 \<and>
   box_tiempo_fin_atencion (boxes estado_en_espera ! 0) = Some 5000 \<and>
   (\<exists>az' s'. bucle_simulacion azar_servicio_largo estado_en_espera = Some (Inr (az', s')) \<and>
      condicion_finalizacion s')"
  using la_simulacion_termina[OF alcanzable_estado_en_espera, of azar_servicio_largo]
    alcanzable_estado_en_espera
  by (auto simp: estado_en_espera_def)

end
